theory Spec2Isabelle
  imports Complex_Main "HOL-Library.Multiset" "HOL-Library.Sublist"
begin

section \<open>JavaScript values used by the services\<close>

subsection \<open>Numbers\<close>

text \<open>
  A JavaScript number is an IEEE double.  A finite double is a rational, so \<open>Fin r\<close>
  stands for the double whose exact value is \<open>r\<close>; the two zeros are both \<open>Fin 0\<close>
  (the code below never tells them apart: both are falsy and both subtract to zero).
\<close>

datatype jsnum = NaN | NegInf | Fin rat | PosInf

text \<open>Truthiness of a number, as used by \<^verbatim>\<open>x || y\<close>: NaN and zero are falsy.\<close>

fun truthy :: "jsnum \<Rightarrow> bool" where
  "truthy NaN = False"
| "truthy (Fin r) = (r \<noteq> 0)"
| "truthy NegInf = True"
| "truthy PosInf = True"

text \<open>
  The sign of \<^verbatim>\<open>a - b\<close>.  An array comparator is only read for its sign: a positive
  result puts \<open>b\<close> first, and a NaN result (\<^verbatim>\<open>Infinity - Infinity\<close>) counts as zero.
  For finite doubles the rounded difference has the sign of the exact one.
\<close>

fun minus_positive :: "jsnum \<Rightarrow> jsnum \<Rightarrow> bool" where
  "minus_positive NaN _ = False"
| "minus_positive _ NaN = False"
| "minus_positive PosInf PosInf = False"
| "minus_positive PosInf _ = True"
| "minus_positive NegInf _ = False"
| "minus_positive (Fin a) PosInf = False"
| "minus_positive (Fin a) NegInf = True"
| "minus_positive (Fin a) (Fin b) = (0 < a - b)"

text \<open>The order of the doubles, false as soon as one side is NaN.\<close>

fun js_le :: "jsnum \<Rightarrow> jsnum \<Rightarrow> bool" where
  "js_le NaN _ = False"
| "js_le _ NaN = False"
| "js_le NegInf _ = True"
| "js_le _ PosInf = True"
| "js_le PosInf _ = False"
| "js_le (Fin a) NegInf = False"
| "js_le (Fin a) (Fin b) = (a \<le> b)"

subsection \<open>Rounding a decimal to the nearest double\<close>

fun bitLength :: "nat \<Rightarrow> nat" where
  "bitLength n = (if n = 0 then 0 else Suc (bitLength (n div 2)))"

declare bitLength.simps [simp del]

definition pow2 :: "int \<Rightarrow> rat" where
  "pow2 k = (if 0 \<le> k then 2 ^ nat k else 1 / 2 ^ nat (- k))"

definition pow10 :: "int \<Rightarrow> rat" where
  "pow10 k = (if 0 \<le> k then 10 ^ nat k else 1 / 10 ^ nat (- k))"

text \<open>\<open>floorLog2 x\<close> is the exponent \<open>e\<close> with \<open>2^e \<le> x < 2^(e+1)\<close>, for \<open>x > 0\<close>.\<close>

definition floorLog2 :: "rat \<Rightarrow> int" where
  "floorLog2 x =
     (if 1 \<le> x then int (bitLength (nat \<lfloor>x\<rfloor>)) - 1
      else - int (bitLength (nat (\<lceil>1 / x\<rceil> - 1))))"

definition roundHalfEven :: "rat \<Rightarrow> int" where
  "roundHalfEven y =
     (let f = \<lfloor>y\<rfloor>; d = y - of_int f
      in if d < 1 / 2 then f else if 1 / 2 < d then f + 1
         else if even f then f else f + 1)"

text \<open>
  \<open>toDouble m e\<close> is the Number value of the decimal \<open>m \<times> 10^e\<close>: round to nearest, ties
  to even, on a 53-bit significand \<open>n\<close> with unit \<open>2^u\<close>, with gradual underflow below
  \<open>2^-1022\<close> and overflow to \<open>Infinity\<close> when the rounded value reaches \<open>2^1024\<close>.
\<close>

definition toDouble :: "nat \<Rightarrow> int \<Rightarrow> jsnum" where
  "toDouble m e =
     (if m = 0 then Fin 0
      else let x = of_nat m * pow10 e;
               u = max (floorLog2 x) (- 1022) - 52;
               n = roundHalfEven (x / pow2 u)
           in if 971 < u \<or> (u = 971 \<and> 2 ^ 53 \<le> n) then PosInf
              else Fin (of_int n * pow2 u))"

fun negate :: "jsnum \<Rightarrow> jsnum" where
  "negate NaN = NaN"
| "negate NegInf = PosInf"
| "negate PosInf = NegInf"
| "negate (Fin r) = Fin (- r)"

subsection \<open>Strings\<close>

text \<open>
  Strings are lists of characters, and a character is a code unit below 256.  In that range
  the white space that \<^verbatim>\<open>trim\<close> and \<^verbatim>\<open>parseFloat\<close> strip is tab, line feed, vertical tab,
  form feed, carriage return, space and the no-break space (160, \<^verbatim>\<open>&nbsp;\<close>), and the letters
  with an upper case are A to Z and the accented capitals 192 to 222 (but 215, the
  multiplication sign).
\<close>

definition isWhiteSpace :: "char \<Rightarrow> bool" where
  "isWhiteSpace c = (of_char c \<in> {9, 10, 11, 12, 13, 32, 160 :: nat})"

definition isDigit :: "char \<Rightarrow> bool" where
  "isDigit c = (48 \<le> (of_char c :: nat) \<and> (of_char c :: nat) \<le> 57)"

definition digitValue :: "char \<Rightarrow> nat" where
  "digitValue c = of_char c - 48"

text \<open>The value of a string of decimal digits, most significant first.\<close>

definition digitsValue :: "string \<Rightarrow> nat" where
  "digitsValue ds = foldl (\<lambda>acc c. 10 * acc + digitValue c) 0 ds"

definition trimStart :: "string \<Rightarrow> string" where
  "trimStart s = dropWhile isWhiteSpace s"

definition trim :: "string \<Rightarrow> string" where
  "trim s = rev (dropWhile isWhiteSpace (rev (dropWhile isWhiteSpace s)))"

definition toLowerChar :: "char \<Rightarrow> char" where
  "toLowerChar c =
     (if (65 \<le> (of_char c :: nat) \<and> (of_char c :: nat) \<le> 90)
         \<or> (192 \<le> (of_char c :: nat) \<and> (of_char c :: nat) \<le> 222 \<and> (of_char c :: nat) \<noteq> 215)
      then char_of (of_char c + 32 :: nat) else c)"

definition toLowerCase :: "string \<Rightarrow> string" where
  "toLowerCase s = map toLowerChar s"

text \<open>\<^verbatim>\<open>s.includes(p)\<close>: \<open>p\<close> occurs in \<open>s\<close> as a contiguous run.\<close>

fun includesText :: "string \<Rightarrow> string \<Rightarrow> bool" where
  "includesText [] p = (p = [])"
| "includesText (c # s) p = (prefix p (c # s) \<or> includesText s p)"

text \<open>\<^verbatim>\<open>s.replace(p, r)\<close> with a string pattern: only the first occurrence is replaced.\<close>

fun replace :: "string \<Rightarrow> string \<Rightarrow> string \<Rightarrow> string" where
  "replace [] p r = (if p = [] then r else [])"
| "replace (c # s) p r =
     (if prefix p (c # s) then r @ drop (length p) (c # s) else c # replace s p r)"

text \<open>\<^verbatim>\<open>s.match(/\d+/)\<close>: the first run of digits, if there is one.\<close>

definition matchDigits :: "string \<Rightarrow> string option" where
  "matchDigits s =
     (let t = dropWhile (\<lambda>c. \<not> isDigit c) s
      in if t = [] then None else Some (takeWhile isDigit t))"

text \<open>\<^verbatim>\<open>parseInt\<close> on a string of decimal digits.\<close>

definition parseInt :: "string \<Rightarrow> jsnum" where
  "parseInt ds = toDouble (digitsValue ds) 0"

subsection \<open>parseFloat\<close>

text \<open>
  \<^verbatim>\<open>parseFloat\<close> skips leading white space and reads the longest prefix that is a
  decimal literal: an optional sign, then \<^verbatim>\<open>Infinity\<close> or digits with an optional
  fraction and an optional exponent.  What follows the literal is ignored; with no
  literal at all the result is NaN.
\<close>

text \<open>The exponent part \<^verbatim>\<open>e[+-]digits\<close> at the head of \<open>s\<close>; 0 when there is none.\<close>

definition exponentPart :: "string \<Rightarrow> int" where
  "exponentPart s =
     (case s of
        [] \<Rightarrow> 0
      | c # t \<Rightarrow>
          if c = CHR ''e'' \<or> c = CHR ''E'' then
            (case t of
               [] \<Rightarrow> 0
             | d # t' \<Rightarrow>
                 if d = CHR ''-'' then
                   (if takeWhile isDigit t' = [] then 0
                    else - int (digitsValue (takeWhile isDigit t')))
                 else if d = CHR ''+'' then int (digitsValue (takeWhile isDigit t'))
                 else int (digitsValue (takeWhile isDigit t)))
          else 0)"

definition unsignedLiteral :: "string \<Rightarrow> jsnum" where
  "unsignedLiteral s =
     (if prefix ''Infinity'' s then PosInf
      else let ip = takeWhile isDigit s; r = dropWhile isDigit s
           in (case r of
                 c # t \<Rightarrow>
                   if c = CHR ''.'' then
                     (let fp = takeWhile isDigit t
                      in if ip = [] \<and> fp = [] then NaN
                         else toDouble (digitsValue (ip @ fp))
                                (exponentPart (dropWhile isDigit t) - int (length fp)))
                   else if ip = [] then NaN
                   else toDouble (digitsValue ip) (exponentPart r)
               | [] \<Rightarrow> if ip = [] then NaN else toDouble (digitsValue ip) 0))"

definition parseFloat :: "string \<Rightarrow> jsnum" where
  "parseFloat s =
     (case trimStart s of
        [] \<Rightarrow> NaN
      | c # t \<Rightarrow>
          if c = CHR ''-'' then negate (unsignedLiteral t)
          else if c = CHR ''+'' then unsignedLiteral t
          else unsignedLiteral (c # t))"

subsection \<open>Array.prototype.sort\<close>

text \<open>
  \<^verbatim>\<open>xs.sort(cmp)\<close> is stable.  The argument \<open>gt a b\<close> says that \<^verbatim>\<open>cmp(a, b)\<close> is
  positive, that is, that \<open>a\<close> has to come after \<open>b\<close>.
\<close>

fun sortInsert :: "('a \<Rightarrow> 'a \<Rightarrow> bool) \<Rightarrow> 'a \<Rightarrow> 'a list \<Rightarrow> 'a list" where
  "sortInsert gt x [] = [x]"
| "sortInsert gt x (y # ys) = (if gt x y then y # sortInsert gt x ys else x # y # ys)"

fun js_sort :: "('a \<Rightarrow> 'a \<Rightarrow> bool) \<Rightarrow> 'a list \<Rightarrow> 'a list" where
  "js_sort gt [] = []"
| "js_sort gt (x # xs) = sortInsert gt x (js_sort gt xs)"

text \<open>\<^verbatim>\<open>xs.slice(i, j)\<close> for \<open>0 \<le> i \<le> j\<close>.\<close>

definition slice :: "nat \<Rightarrow> nat \<Rightarrow> 'a list \<Rightarrow> 'a list" where
  "slice i j xs = take (j - i) (drop i xs)"

section \<open>Product service (src/services/productService.ts)\<close>

subsection \<open>Data model\<close>

datatype chain = Walmart | Target

record StoreLocation =
  loc_storeId :: string
  loc_name :: string
  loc_address :: string
  loc_distance :: "jsnum option"
  loc_chain :: chain

text \<open>\<open>lastUpdated\<close> is the time of the observation, counted in requests sent so far.\<close>

record StoreInventory =
  storeId :: string
  chain :: chain
  inStock :: bool
  quantity :: "jsnum option"
  aisle :: string
  price :: "jsnum option"
  lastUpdated :: nat

record ProductInfo =
  name :: string
  image :: string
  barcode :: string
  inventory :: StoreInventory
  alternativeStores :: "StoreInventory list option"
  brand :: "string option"

subsection \<open>Retrieved pages\<close>

text \<open>
  A loaded page is known through the queries the service makes on it:
  \<^verbatim>\<open>$(selector).text()\<close> (empty when no node matches), \<^verbatim>\<open>$(selector).attr(name)\<close>
  and the nodes of class \<^verbatim>\<open>store-list-item\<close>, each with its own attribute and texts.
\<close>

record store_list_item =
  data_store_id :: "string option"
  store_name_text :: string
  store_address_text :: string
  distance_text :: string

record document =
  text_of :: "string \<Rightarrow> string"
  attr_of :: "string \<Rightarrow> string \<Rightarrow> string option"
  store_list_items :: "store_list_item list"

subsection \<open>HTTP retrieval with retry\<close>

text \<open>
  A request fails with no response (a network error), by a timeout (axios code
  \<^verbatim>\<open>ECONNABORTED\<close>) or with a response whose status is not 2xx.
\<close>

datatype http_error = NetworkError | Aborted | HttpStatus nat

record request =
  url :: string
  headers :: "(string \<times> string) list"

text \<open>The network: what the \<open>n\<close>-th attempt sent gets as its answer.\<close>

type_synonym network = "nat \<Rightarrow> request \<Rightarrow> http_error + document"

text \<open>
  Modelled from the spec: the retry interceptor is the axios-retry dependency, whose code is
  not under src/.  Section 4.1 gives its shape (an attempt, and on failure another one when
  the retry condition holds); the source configures it with \<^verbatim>\<open>retries: 3\<close> and its own
  \<^verbatim>\<open>retryCondition\<close>.  \<open>retries\<close> counts the retries that follow the first attempt, as the
  option's name says.  \<open>isNetworkOrIdempotentRequestError\<close> is the library's predicate, here
  for the GET requests the service sends: a network error, or a 5xx answer.
\<close>

definition isNetworkOrIdempotentRequestError :: "http_error \<Rightarrow> bool" where
  "isNetworkOrIdempotentRequestError e =
     (case e of NetworkError \<Rightarrow> True | Aborted \<Rightarrow> False
      | HttpStatus s \<Rightarrow> 500 \<le> s \<and> s \<le> 599)"

definition retryCondition :: "http_error \<Rightarrow> bool" where
  "retryCondition e =
     (isNetworkOrIdempotentRequestError e \<or> (case e of HttpStatus s \<Rightarrow> s = 429 | _ \<Rightarrow> False))"

definition retries :: nat where
  "retries = 3"

text \<open>
  \<open>axios_retry net req t retryCount\<close> sends attempt number \<open>t\<close> and returns the final
  outcome with the number of the next attempt.
\<close>

function axios_retry :: "network \<Rightarrow> request \<Rightarrow> nat \<Rightarrow> nat \<Rightarrow> (http_error + document) \<times> nat" where
  "axios_retry net req t retryCount =
     (case net t req of
        Inr doc \<Rightarrow> (Inr doc, Suc t)
      | Inl err \<Rightarrow>
          if retryCount < retries \<and> retryCondition err
          then axios_retry net req (Suc t) (Suc retryCount)
          else (Inl err, Suc t))"
  by pat_completeness auto
termination
  by (relation "measure (\<lambda>(net, req, t, retryCount). retries - retryCount)") auto

declare axios_retry.simps [simp del]

definition axios_get :: "network \<Rightarrow> nat \<Rightarrow> request \<Rightarrow> (http_error + document) \<times> nat" where
  "axios_get net t req = axios_retry net req t 0"

subsection \<open>Retailer adapters\<close>

definition USER_AGENT :: string where
  "USER_AGENT = ''Mozilla/5.0 (Windows NT 10.0; Win64; x64) AppleWebKit/537.36 (KHTML, like Gecko) Chrome/91.0.4472.124 Safari/537.36''"

definition ACCEPT :: string where
  "ACCEPT = ''text/html,application/xhtml+xml,application/xml;q=0.9,image/webp,*/*;q=0.8''"

text \<open>\<^verbatim>\<open>s || d\<close> on strings: the empty string is falsy.\<close>

definition orElse :: "string \<Rightarrow> string \<Rightarrow> string" where
  "orElse s d = (if s \<noteq> [] then s else d)"

text \<open>\<^verbatim>\<open>n || undefined\<close> on numbers.\<close>

definition orUndefined :: "jsnum \<Rightarrow> jsnum option" where
  "orUndefined n = (if truthy n then Some n else None)"

text \<open>The body of the \<^verbatim>\<open>each\<close> callback of the two store finders.\<close>

definition storeOfItem :: "chain \<Rightarrow> store_list_item \<Rightarrow> StoreLocation" where
  "storeOfItem c element =
     \<lparr>loc_storeId = (case data_store_id element of Some i \<Rightarrow> orElse i [] | None \<Rightarrow> []),
      loc_name = trim (store_name_text element),
      loc_address = trim (store_address_text element),
      loc_distance = Some (parseFloat (trim (replace (trim (distance_text element)) ''miles'' []))),
      loc_chain = c\<rparr>"

definition findWalmartStores :: "network \<Rightarrow> nat \<Rightarrow> string \<Rightarrow> StoreLocation list \<times> nat" where
  "findWalmartStores net t zipCode =
     (case axios_get net t
             \<lparr>url = ''https://www.walmart.com/store/finder?location='' @ zipCode,
              headers = [(''User-Agent'', USER_AGENT)]\<rparr> of
        (Inr doc, t') \<Rightarrow> (map (storeOfItem Walmart) (store_list_items doc), t')
      | (Inl error, t') \<Rightarrow> ([], t'))"

definition findTargetStores :: "network \<Rightarrow> nat \<Rightarrow> string \<Rightarrow> StoreLocation list \<times> nat" where
  "findTargetStores net t zipCode =
     (case axios_get net t
             \<lparr>url = ''https://www.target.com/store-locator/find-stores?address='' @ zipCode,
              headers = [(''User-Agent'', USER_AGENT)]\<rparr> of
        (Inr doc, t') \<Rightarrow> (map (storeOfItem Target) (store_list_items doc), t')
      | (Inl error, t') \<Rightarrow> ([], t'))"

definition getWalmartInventory ::
  "network \<Rightarrow> nat \<Rightarrow> string \<Rightarrow> string \<Rightarrow> StoreInventory option \<times> nat" where
  "getWalmartInventory net t sid code =
     (case axios_get net t
             \<lparr>url = ''https://www.walmart.com/ip/'' @ code,
              headers = [(''User-Agent'', USER_AGENT), (''Accept'', ACCEPT)]\<rparr> of
        (Inr doc, t') \<Rightarrow>
          (let inStockText = toLowerCase (text_of doc ''.fulfillment-status'');
               priceText = trim (text_of doc ''.price-main'');
               aisleText = trim (text_of doc ''.aisle-location'')
           in (Some \<lparr>storeId = sid, chain = Walmart,
                      inStock = includesText inStockText ''in stock'',
                      quantity = None,
                      aisle = orElse aisleText ''Ask store associate'',
                      price = orUndefined (parseFloat (replace priceText ''$'' [])),
                      lastUpdated = t'\<rparr>, t'))
      | (Inl error, t') \<Rightarrow> (None, t'))"

definition getTargetInventory ::
  "network \<Rightarrow> nat \<Rightarrow> string \<Rightarrow> string \<Rightarrow> StoreInventory option \<times> nat" where
  "getTargetInventory net t sid code =
     (case axios_get net t
             \<lparr>url = ''https://www.target.com/p/a/'' @ code,
              headers = [(''User-Agent'', USER_AGENT), (''Accept'', ACCEPT)]\<rparr> of
        (Inr doc, t') \<Rightarrow>
          (let inStockText = toLowerCase (text_of doc ''.fulfillment-status'');
               priceText = trim (text_of doc ''.price'');
               aisleText = trim (text_of doc ''.aisle-location'')
           in (Some \<lparr>storeId = sid, chain = Target,
                      inStock = includesText inStockText ''in stock'',
                      quantity = None,
                      aisle = orElse aisleText ''Ask store associate'',
                      price = orUndefined (parseFloat (replace priceText ''$'' [])),
                      lastUpdated = t'\<rparr>, t'))
      | (Inl error, t') \<Rightarrow> (None, t'))"

definition scrapeWalmartProduct :: "network \<Rightarrow> nat \<Rightarrow> string \<Rightarrow> ProductInfo option \<times> nat" where
  "scrapeWalmartProduct net t code =
     (case axios_get net t
             \<lparr>url = ''https://www.walmart.com/ip/'' @ code,
              headers = [(''User-Agent'', USER_AGENT)]\<rparr> of
        (Inr doc, t') \<Rightarrow>
          (let nm = trim (text_of doc ''.prod-title'');
               img = (case attr_of doc ''.prod-image img'' ''src'' of
                        Some s \<Rightarrow> orElse s [] | None \<Rightarrow> []);
               br = trim (text_of doc ''.prod-brand'')
           in if nm = [] then (None, t')
              else (Some \<lparr>name = nm, image = img, barcode = code,
                          inventory = \<lparr>storeId = ''unknown'', chain = Walmart, inStock = False,
                                       quantity = None, aisle = ''unknown'', price = None,
                                       lastUpdated = t'\<rparr>,
                          alternativeStores = None, brand = Some br\<rparr>, t'))
      | (Inl error, t') \<Rightarrow> (None, t'))"

definition scrapeTargetProduct :: "network \<Rightarrow> nat \<Rightarrow> string \<Rightarrow> ProductInfo option \<times> nat" where
  "scrapeTargetProduct net t code =
     (case axios_get net t
             \<lparr>url = ''https://www.target.com/p/a/'' @ code,
              headers = [(''User-Agent'', USER_AGENT)]\<rparr> of
        (Inr doc, t') \<Rightarrow>
          (let nm = trim (text_of doc ''.product-name'');
               img = (case attr_of doc ''.product-image img'' ''src'' of
                        Some s \<Rightarrow> orElse s [] | None \<Rightarrow> []);
               br = trim (text_of doc ''.product-brand'')
           in if nm = [] then (None, t')
              else (Some \<lparr>name = nm, image = img, barcode = code,
                          inventory = \<lparr>storeId = ''unknown'', chain = Target, inStock = False,
                                       quantity = None, aisle = ''unknown'', price = None,
                                       lastUpdated = t'\<rparr>,
                          alternativeStores = None, brand = Some br\<rparr>, t'))
      | (Inl error, t') \<Rightarrow> (None, t'))"

subsection \<open>Resolution: getProductInfo\<close>

text \<open>The chain dispatch that \<^verbatim>\<open>getProductInfo\<close> writes out at both of its inventory lookups.\<close>

definition getInventory :: "network \<Rightarrow> nat \<Rightarrow> StoreLocation \<Rightarrow> string \<Rightarrow> StoreInventory option \<times> nat" where
  "getInventory net t store code =
     (if loc_chain store = Walmart then getWalmartInventory net t (loc_storeId store) code
      else getTargetInventory net t (loc_storeId store) code)"

text \<open>\<^verbatim>\<open>a.distance || Infinity\<close>: an absent, NaN or zero distance becomes \<open>Infinity\<close>.\<close>

definition distanceOrInfinity :: "StoreLocation \<Rightarrow> jsnum" where
  "distanceOrInfinity a =
     (case loc_distance a of None \<Rightarrow> PosInf | Some d \<Rightarrow> if truthy d then d else PosInf)"

text \<open>The comparator \<^verbatim>\<open>(a, b) => (a.distance || Infinity) - (b.distance || Infinity)\<close>.\<close>

definition byDistance :: "StoreLocation \<Rightarrow> StoreLocation \<Rightarrow> bool" where
  "byDistance a b = minus_positive (distanceOrInfinity a) (distanceOrInfinity b)"

definition sortStores :: "StoreLocation list \<Rightarrow> StoreLocation list \<Rightarrow> StoreLocation list" where
  "sortStores walmartStores targetStores = js_sort byDistance (walmartStores @ targetStores)"

text \<open>
  The candidate list \<^verbatim>\<open>allStores\<close>.  The two finders run concurrently in the source; each
  sends its own request, numbered here one after the other.
\<close>

definition allStoresAt :: "network \<Rightarrow> nat \<Rightarrow> string \<Rightarrow> StoreLocation list \<times> nat" where
  "allStoresAt net t zipCode =
     (case findWalmartStores net t zipCode of
        (walmartStores, t1) \<Rightarrow>
          (case findTargetStores net t1 zipCode of
             (targetStores, t2) \<Rightarrow> (sortStores walmartStores targetStores, t2)))"

text \<open>The loop over \<^verbatim>\<open>allStores.slice(1, 4)\<close> that fills \<^verbatim>\<open>alternativeStores\<close>.\<close>

fun alternativesLoop ::
  "network \<Rightarrow> nat \<Rightarrow> string \<Rightarrow> StoreLocation list \<Rightarrow> StoreInventory list \<Rightarrow> StoreInventory list \<times> nat" where
  "alternativesLoop net t code [] alternatives = (alternatives, t)"
| "alternativesLoop net t code (store # rest) alternatives =
     (case getInventory net t store code of
        (Some storeInventory, t') \<Rightarrow>
          alternativesLoop net t' code rest
            (if inStock storeInventory then alternatives @ [storeInventory] else alternatives)
      | (None, t') \<Rightarrow> alternativesLoop net t' code rest alternatives)"

text \<open>The part of \<^verbatim>\<open>getProductInfo\<close> under \<^verbatim>\<open>if (zipCode)\<close>.\<close>

definition withStores :: "network \<Rightarrow> nat \<Rightarrow> string \<Rightarrow> string \<Rightarrow> ProductInfo \<Rightarrow> ProductInfo" where
  "withStores net t code zipCode productInfo =
     (case allStoresAt net t zipCode of
        (allStores, t1) \<Rightarrow>
          (case allStores of
             [] \<Rightarrow> productInfo
           | nearestStore # _ \<Rightarrow>
               (case getInventory net t1 nearestStore code of
                  (primary, t2) \<Rightarrow>
                    (let productInfo1 =
                           (case primary of Some i \<Rightarrow> productInfo\<lparr>inventory := i\<rparr>
                            | None \<Rightarrow> productInfo)
                     in if \<not> (case primary of Some i \<Rightarrow> inStock i | None \<Rightarrow> False) then
                          (case alternativesLoop net t2 code (slice 1 4 allStores) [] of
                             (alternatives, t3) \<Rightarrow>
                               if 0 < length alternatives
                               then productInfo1\<lparr>alternativeStores := Some alternatives\<rparr>
                               else productInfo1)
                        else productInfo1))))"

text \<open>
  \<^verbatim>\<open>getProductInfo(barcode, zipCode?)\<close>, started when \<open>t\<close> requests have been sent.  An
  absent or empty \<open>zipCode\<close> is falsy.
\<close>

definition getProductInfo :: "network \<Rightarrow> nat \<Rightarrow> string \<Rightarrow> string option \<Rightarrow> ProductInfo option" where
  "getProductInfo net t code zipCode =
     (case scrapeWalmartProduct net t code of
        (fromWalmart, t1) \<Rightarrow>
          (case (case fromWalmart of
                   Some p \<Rightarrow> (Some p, t1)
                 | None \<Rightarrow> scrapeTargetProduct net t1 code) of
             (None, t2) \<Rightarrow> None
           | (Some productInfo, t2) \<Rightarrow>
               (case zipCode of
                  None \<Rightarrow> Some productInfo
                | Some z \<Rightarrow>
                    if z \<noteq> [] then Some (withStores net t2 code z productInfo)
                    else Some productInfo)))"

section \<open>Route screen (src/unnamed/part_002)\<close>

subsection \<open>Data model\<close>

record PriceInfo =
  pr_store :: string
  pr_price :: jsnum
  pr_distance :: jsnum
  pr_address :: string
  pr_timestamp :: nat

text \<open>
  \<open>item_quantity\<close> is a count of units, a whole number.  The source adds and compares the
  quantities as doubles, which is exact as long as the sums stay within \<open>2^53\<close>; the
  statements about totals carry that bound.
\<close>

record PantryItem =
  item_id :: string
  item_barcode :: string
  item_name :: string
  item_quantity :: int
  item_dateAdded :: nat
  item_image :: string
  item_prices :: "PriceInfo list"
  item_aisle :: "string option"

record StoreRoute =
  store :: string
  items :: "PantryItem list"
  optimizedPath :: "PantryItem list"
  totalItems :: int

datatype js_error = TypeError

subsection \<open>getAisleNumber\<close>

definition getAisleNumber :: "string option \<Rightarrow> jsnum" where
  "getAisleNumber a =
     (case a of
        None \<Rightarrow> Fin 999
      | Some s \<Rightarrow>
          if s = [] then Fin 999
          else (case matchDigits s of Some m \<Rightarrow> parseInt m | None \<Rightarrow> Fin 998))"

subsection \<open>optimizeRoute\<close>

text \<open>
  \<^verbatim>\<open>aisleGroups\<close> is a plain object used as a dictionary; it is kept here as the list of
  its own properties in the order they were created.  A plain object also answers for the
  names it inherits from \<^verbatim>\<open>Object.prototype\<close>: for such an aisle label
  \<^verbatim>\<open>groups[aisle]\<close> is a function (or the prototype itself), so no group is created and
  the call of \<^verbatim>\<open>push\<close> on it raises a TypeError.
\<close>

definition objectPrototypeKeys :: "string list" where
  "objectPrototypeKeys =
     [''constructor'', ''__defineGetter__'', ''__defineSetter__'', ''hasOwnProperty'',
      ''__lookupGetter__'', ''__lookupSetter__'', ''isPrototypeOf'', ''propertyIsEnumerable'',
      ''toString'', ''valueOf'', ''__proto__'', ''toLocaleString'']"

definition aisleLabel :: "PantryItem \<Rightarrow> string" where
  "aisleLabel item = (case item_aisle item of Some a \<Rightarrow> orElse a ''Other'' | None \<Rightarrow> ''Other'')"

text \<open>\<^verbatim>\<open>groups[aisle].push(item)\<close> on an own property.\<close>

fun pushTo :: "string \<Rightarrow> 'a \<Rightarrow> (string \<times> 'a list) list \<Rightarrow> (string \<times> 'a list) list" where
  "pushTo k x [] = []"
| "pushTo k x ((k', xs) # g) = (if k' = k then (k', xs @ [x]) # g else (k', xs) # pushTo k x g)"

text \<open>The callback of \<^verbatim>\<open>items.reduce\<close>.\<close>

definition groupStep ::
  "(string \<times> PantryItem list) list \<Rightarrow> PantryItem \<Rightarrow> js_error + (string \<times> PantryItem list) list" where
  "groupStep groups item =
     (let a = aisleLabel item
      in if a \<in> set objectPrototypeKeys then Inl TypeError
         else if map_of groups a = None then Inr (pushTo a item (groups @ [(a, [])]))
         else Inr (pushTo a item groups))"

fun groupItems ::
  "(string \<times> PantryItem list) list \<Rightarrow> PantryItem list \<Rightarrow> js_error + (string \<times> PantryItem list) list" where
  "groupItems groups [] = Inr groups"
| "groupItems groups (item # rest) =
     (case groupStep groups item of
        Inl e \<Rightarrow> Inl e
      | Inr groups' \<Rightarrow> groupItems groups' rest)"

text \<open>
  \<^verbatim>\<open>Object.keys\<close>: the keys that are array indices (canonical decimal numerals up to
  \<open>2^32 - 2\<close>) come first, in ascending numeric order, then the other keys in the order
  of their creation.
\<close>

definition isArrayIndex :: "string \<Rightarrow> bool" where
  "isArrayIndex s =
     (s \<noteq> [] \<and> list_all isDigit s \<and> (length s = 1 \<or> hd s \<noteq> CHR ''0'')
      \<and> int (digitsValue s) \<le> 4294967294)"

definition objectKeys :: "(string \<times> 'a) list \<Rightarrow> string list" where
  "objectKeys obj =
     sort_key digitsValue (filter isArrayIndex (map fst obj))
     @ filter (\<lambda>k. \<not> isArrayIndex k) (map fst obj)"

text \<open>The comparator \<^verbatim>\<open>(a, b) => getAisleNumber(a) - getAisleNumber(b)\<close>.\<close>

definition byAisleNumber :: "string \<Rightarrow> string \<Rightarrow> bool" where
  "byAisleNumber a b = minus_positive (getAisleNumber (Some a)) (getAisleNumber (Some b))"

definition groupOf :: "(string \<times> 'a list) list \<Rightarrow> string \<Rightarrow> 'a list" where
  "groupOf groups a = (case map_of groups a of Some xs \<Rightarrow> xs | None \<Rightarrow> [])"

definition optimizeRoute :: "PantryItem list \<Rightarrow> js_error + PantryItem list" where
  "optimizeRoute its =
     (case groupItems [] its of
        Inl e \<Rightarrow> Inl e
      | Inr aisleGroups \<Rightarrow>
          (let sortedAisles = js_sort byAisleNumber (objectKeys aisleGroups)
           in Inr (concat (map (groupOf aisleGroups) sortedAisles))))"

subsection \<open>organizeByStore\<close>

text \<open>\<^verbatim>\<open>storeMap\<close> is a \<^verbatim>\<open>Map\<close>: its entries stay in the order of their insertion.\<close>

definition storeStep :: "(string \<times> PantryItem list) list \<Rightarrow> PantryItem \<Rightarrow> (string \<times> PantryItem list) list" where
  "storeStep storeMap item =
     (case item_prices item of
        [] \<Rightarrow> storeMap
      | p # _ \<Rightarrow>
          (let st = pr_store p;
               storeMap1 = (if map_of storeMap st = None then storeMap @ [(st, [])] else storeMap)
           in if 0 < item_quantity item then pushTo st item storeMap1 else storeMap1))"

definition partitionByStore :: "PantryItem list \<Rightarrow> (string \<times> PantryItem list) list" where
  "partitionByStore its = foldl storeStep [] its"




section \<open>Notions used in the statements\<close>

text \<open>A store is identified by its id within its chain.\<close>

definition invKey :: "StoreInventory \<Rightarrow> string \<times> chain" where
  "invKey i = (storeId i, chain i)"

definition locKey :: "StoreLocation \<Rightarrow> string \<times> chain" where
  "locKey s = (loc_storeId s, loc_chain s)"

text \<open>
  The answers of the inventory lookups at a list of stores, asked one after the other from
  time \<open>t\<close> on, and the inventories among a list of answers.
\<close>

fun lookups :: "network \<Rightarrow> nat \<Rightarrow> string \<Rightarrow> StoreLocation list \<Rightarrow> StoreInventory option list" where
  "lookups net t code [] = []"
| "lookups net t code (s # rest) =
     (case getInventory net t s code of (r, t') \<Rightarrow> r # lookups net t' code rest)"

definition found :: "'a option list \<Rightarrow> 'a list" where
  "found rs = concat (map (\<lambda>r. case r of Some x \<Rightarrow> [x] | None \<Rightarrow> []) rs)"

text \<open>The store an item is assigned to: the one named in its first price observation.\<close>

definition firstStore :: "PantryItem \<Rightarrow> string option" where
  "firstStore item = (case item_prices item of [] \<Rightarrow> None | p # _ \<Rightarrow> Some (pr_store p))"




section \<open>Example pages and networks\<close>

text \<open>A page that answers each listed selector with its text and has nothing else.\<close>

definition pageOf :: "(string \<times> string) list \<Rightarrow> document" where
  "pageOf texts =
     \<lparr>text_of = (\<lambda>selector. case map_of texts selector of Some s \<Rightarrow> s | None \<Rightarrow> []),
      attr_of = (\<lambda>selector attribute. None),
      store_list_items = []\<rparr>"

text \<open>A store-finder page with the given store nodes.\<close>

definition storeListPage :: "store_list_item list \<Rightarrow> document" where
  "storeListPage nodes =
     \<lparr>text_of = (\<lambda>selector. []), attr_of = (\<lambda>selector attribute. None),
      store_list_items = nodes\<rparr>"

text \<open>A network that gives the listed answers in turn, and no connection after them.\<close>

definition respondWith :: "(http_error + document) list \<Rightarrow> network" where
  "respondWith answers n req = (if n < length answers then answers ! n else Inl NetworkError)"

text \<open>A product page of an item in stock, with a price and no aisle.\<close>

definition stockedPage :: document where
  "stockedPage =
     pageOf [(''.prod-title'', ''Widget''), (''.product-name'', ''Widget''),
             (''.fulfillment-status'', ''In Stock''), (''.price-main'', ''$4.50''),
             (''.price'', ''$4.50''), (''.aisle-location'', '' '')]"

text \<open>A product page of an item that is out of stock.\<close>

definition soldOutPage :: document where
  "soldOutPage =
     pageOf [(''.prod-title'', ''Widget''), (''.product-name'', ''Widget''),
             (''.fulfillment-status'', ''Out of stock'')]"

text \<open>
  A Walmart and a Target store that carry the same store number: the Walmart one is nearer
  and sold out, the Target one has the item.
\<close>

definition sameNumberNetwork :: network where
  "sameNumberNetwork =
     respondWith
       [Inr soldOutPage,
        Inr (storeListPage [\<lparr>data_store_id = Some ''1234'', store_name_text = ''Walmart Supercenter'',
                              store_address_text = ''100 Main St'', distance_text = ''1 miles''\<rparr>]),
        Inr (storeListPage [\<lparr>data_store_id = Some ''1234'', store_name_text = ''Target'',
                              store_address_text = ''200 Oak Ave'', distance_text = ''2 miles''\<rparr>]),
        Inr soldOutPage,
        Inr stockedPage]"

text \<open>
  Walmart does not know the product, Target does.  Three stores at 0.5, 1.5 and 3 miles; the
  nearest is sold out, the other two have the item.
\<close>

definition widgetNetwork :: network where
  "widgetNetwork =
     respondWith
       [Inl (HttpStatus 404),
        Inr soldOutPage,
        Inr (storeListPage [\<lparr>data_store_id = Some ''W1'', store_name_text = ''Walmart Supercenter'',
                              store_address_text = ''100 Main St'', distance_text = ''1.5 miles''\<rparr>]),
        Inr (storeListPage [\<lparr>data_store_id = Some ''T1'', store_name_text = ''Target'',
                              store_address_text = ''200 Oak Ave'', distance_text = ''0.5 miles''\<rparr>,
                            \<lparr>data_store_id = Some ''T2'', store_name_text = ''Target North'',
                              store_address_text = ''300 Elm Rd'', distance_text = ''3 miles''\<rparr>]),
        Inr soldOutPage,
        Inr stockedPage,
        Inr stockedPage]"

text \<open>No chain knows the product: Walmart answers 404 and the Target page has no title.\<close>

definition unknownProductNetwork :: network where
  "unknownProductNetwork = respondWith [Inl (HttpStatus 404), Inr (pageOf [])]"

text \<open>A store right at the shopper's location (0 miles) listed after one at 1.5 miles.\<close>

definition zeroMilesNetwork :: network where
  "zeroMilesNetwork =
     respondWith
       [Inr soldOutPage,
        Inr (storeListPage [\<lparr>data_store_id = Some ''100'', store_name_text = ''Walmart Supercenter'',
                              store_address_text = ''100 Main St'', distance_text = ''1.5 miles''\<rparr>,
                            \<lparr>data_store_id = Some ''200'', store_name_text = ''Walmart Neighborhood Market'',
                              store_address_text = ''1 Here St'', distance_text = ''0 miles''\<rparr>]),
        Inl (HttpStatus 404),
        Inr stockedPage]"

text \<open>A product page of a free item.\<close>

definition freePage :: document where
  "freePage =
     pageOf [(''.fulfillment-status'', ''In stock''), (''.price-main'', ''$0.00''),
             (''.price'', ''$0.00''), (''.aisle-location'', ''A12'')]"

text \<open>A shopping-list item with one price observation, at the given store.\<close>

definition listed :: "string \<Rightarrow> string \<Rightarrow> int \<Rightarrow> string option \<Rightarrow> PantryItem" where
  "listed i st q a =
     \<lparr>item_id = i, item_barcode = ''012345'', item_name = ''Widget'', item_quantity = q,
      item_dateAdded = 0, item_image = [],
      item_prices = [\<lparr>pr_store = st, pr_price = Fin 1, pr_distance = Fin 0, pr_address = [],
                      pr_timestamp = 0\<rparr>],
      item_aisle = a\<rparr>"


text \<open>A product page whose price text carries a minus sign.\<close>

definition negativePricePage :: document where
  "negativePricePage = pageOf [(''.price-main'', ''-$5.00''), (''.price'', ''-$5.00'')]"

section \<open>Properties of the JavaScript operations\<close>

subsection \<open>Sorting\<close>

lemma mset_sortInsert: "mset (sortInsert gt x xs) = add_mset x (mset xs)"
  by (induction xs) simp_all

lemma mset_js_sort: "mset (js_sort gt xs) = mset xs"
  by (induction xs) (simp_all add: mset_sortInsert)


lemma length_js_sort: "length (js_sort gt xs) = length xs"
  using mset_js_sort [of gt xs] by (metis size_mset)

lemma set_sortInsert: "set (sortInsert gt x xs) = insert x (set xs)"
  using mset_sortInsert [of gt x xs] by (metis set_mset_add_mset_insert set_mset_mset)

text \<open>
  With a comparator that is asymmetric and whose ties are transitive, the result is
  ordered: no element has to come after a later one.
\<close>

lemma sorted_sortInsert:
  assumes asym: "\<And>a b. gt a b \<Longrightarrow> \<not> gt b a"
    and negtrans: "\<And>a b c. \<not> gt a b \<Longrightarrow> \<not> gt b c \<Longrightarrow> \<not> gt a c"
    and srt: "sorted_wrt (\<lambda>a b. \<not> gt a b) xs"
  shows "sorted_wrt (\<lambda>a b. \<not> gt a b) (sortInsert gt x xs)"
  using srt
proof (induction xs)
  case Nil
  show ?case by simp
next
  case (Cons y ys)
  show ?case
  proof (cases "gt x y")
    case True
    have tail: "sorted_wrt (\<lambda>a b. \<not> gt a b) (sortInsert gt x ys)"
      using Cons by simp
    have "\<forall>z \<in> set (sortInsert gt x ys). \<not> gt y z"
      using Cons.prems True asym by (auto simp: set_sortInsert)
    with tail True show ?thesis by simp
  next
    case False
    have "\<forall>z \<in> set ys. \<not> gt x z"
      using Cons.prems False negtrans by auto
    with False Cons.prems show ?thesis by simp
  qed
qed

lemma sorted_js_sort:
  assumes "\<And>a b. gt a b \<Longrightarrow> \<not> gt b a"
    and "\<And>a b c. \<not> gt a b \<Longrightarrow> \<not> gt b c \<Longrightarrow> \<not> gt a c"
  shows "sorted_wrt (\<lambda>a b. \<not> gt a b) (js_sort gt xs)"
proof (induction xs)
  case Nil
  show ?case by simp
next
  case (Cons x xs)
  have "sorted_wrt (\<lambda>a b. \<not> gt a b) (sortInsert gt x (js_sort gt xs))"
    by (rule sorted_sortInsert [OF assms Cons.IH])
  then show ?case by simp
qed

text \<open>Stability: elements that tie with each other keep their order.\<close>

lemma filter_sortInsert:
  assumes "\<And>a b. P a \<Longrightarrow> P b \<Longrightarrow> \<not> gt a b"
  shows "filter P (sortInsert gt x xs) = (if P x then x # filter P xs else filter P xs)"
proof (induction xs)
  case Nil
  show ?case by simp
next
  case (Cons y ys)
  have "P x \<Longrightarrow> P y \<Longrightarrow> \<not> gt x y"
    by (rule assms)
  with Cons show ?case by auto
qed

lemma filter_js_sort:
  assumes "\<And>a b. P a \<Longrightarrow> P b \<Longrightarrow> \<not> gt a b"
  shows "filter P (js_sort gt xs) = filter P xs"
proof (induction xs)
  case Nil
  show ?case by simp
next
  case (Cons x xs)
  have "filter P (sortInsert gt x (js_sort gt xs))
        = (if P x then x # filter P (js_sort gt xs) else filter P (js_sort gt xs))"
    by (rule filter_sortInsert [OF assms])
  with Cons show ?case by simp
qed

subsection \<open>Strings\<close>

lemma includesText_iff: "includesText s p \<longleftrightarrow> (\<exists>a b. s = a @ p @ b)"
proof (induction s)
  case Nil
  show ?case by auto
next
  case (Cons c s)
  show ?case
  proof
    assume "includesText (c # s) p"
    then consider "prefix p (c # s)" | "includesText s p" by auto
    then show "\<exists>a b. c # s = a @ p @ b"
    proof cases
      case 1
      then obtain b where "c # s = p @ b" by (auto simp: prefix_def)
      then have "c # s = [] @ p @ b" by simp
      then show ?thesis by blast
    next
      case 2
      with Cons obtain a b where "s = a @ p @ b" by blast
      then have "c # s = (c # a) @ p @ b" by simp
      then show ?thesis by blast
    qed
  next
    assume "\<exists>a b. c # s = a @ p @ b"
    then obtain a b where ab: "c # s = a @ p @ b" by blast
    show "includesText (c # s) p"
    proof (cases a)
      case Nil
      with ab have "prefix p (c # s)" by (simp add: prefix_def)
      then show ?thesis by simp
    next
      case (Cons d a')
      with ab have "s = a' @ p @ b" by simp
      with Cons.IH have "includesText s p" by blast
      then show ?thesis by simp
    qed
  qed
qed

text \<open>
  Lower-casing and then looking for a lower-case phrase is a case-insensitive search:
  some stretch of the text reads as the phrase once lower-cased.
\<close>

lemma includes_lower_iff:
  "includesText (toLowerCase s) p \<longleftrightarrow> (\<exists>a w b. s = a @ w @ b \<and> toLowerCase w = p)"
proof
  assume "includesText (toLowerCase s) p"
  then have "\<exists>a b. toLowerCase s = a @ p @ b"
    by (simp only: includesText_iff)
  then obtain a b where "map toLowerChar s = a @ (p @ b)"
    unfolding toLowerCase_def by blast
  then have "\<exists>us vs. s = us @ vs \<and> a = map toLowerChar us \<and> p @ b = map toLowerChar vs"
    by (rule map_eq_append_conv [THEN iffD1])
  then obtain a' r where r: "s = a' @ r" "map toLowerChar r = p @ b"
    by metis
  from r(2) have "\<exists>us vs. r = us @ vs \<and> p = map toLowerChar us \<and> b = map toLowerChar vs"
    by (rule map_eq_append_conv [THEN iffD1])
  then obtain w b' where w: "r = w @ b'" "map toLowerChar w = p"
    by metis
  have "s = a' @ w @ b'" using r(1) w(1) by simp
  moreover have "toLowerCase w = p" using w(2) by (simp only: toLowerCase_def)
  ultimately show "\<exists>a w b. s = a @ w @ b \<and> toLowerCase w = p" by blast
next
  assume "\<exists>a w b. s = a @ w @ b \<and> toLowerCase w = p"
  then obtain a w b where "s = a @ w @ b" "toLowerCase w = p" by blast
  then have "toLowerCase s = toLowerCase a @ p @ toLowerCase b"
    by (simp add: toLowerCase_def)
  then have "\<exists>x y. toLowerCase s = x @ p @ y" by blast
  then show "includesText (toLowerCase s) p"
    by (simp only: includesText_iff)
qed

lemma orUndefined_cases:
  "orUndefined p = (if p = NaN \<or> p = Fin 0 then None else Some p)"
  by (cases p) (auto simp: orUndefined_def)

subsection \<open>Number order\<close>

lemma minus_positive_iff: "x \<noteq> NaN \<Longrightarrow> y \<noteq> NaN \<Longrightarrow> minus_positive x y \<longleftrightarrow> \<not> js_le x y"
  by (cases x; cases y) auto

lemma minus_positive_asym: "minus_positive x y \<Longrightarrow> \<not> minus_positive y x"
  by (cases x; cases y) auto

lemma minus_positive_negtrans:
  "\<not> minus_positive x y \<Longrightarrow> \<not> minus_positive y z \<Longrightarrow> y \<noteq> NaN \<Longrightarrow> \<not> minus_positive x z"
  by (cases x; cases y; cases z) auto

lemma minus_positive_refl: "\<not> minus_positive x x"
  by (cases x) auto

lemma js_le_refl: "x \<noteq> NaN \<Longrightarrow> js_le x x"
  by (cases x) auto

lemma sorted_by_key:
  assumes nn: "\<And>x. f x \<noteq> NaN"
  shows "sorted_wrt (\<lambda>a b. js_le (f a) (f b)) (js_sort (\<lambda>a b. minus_positive (f a) (f b)) xs)"
proof -
  let ?gt = "\<lambda>a b. minus_positive (f a) (f b)"
  have "sorted_wrt (\<lambda>a b. \<not> ?gt a b) (js_sort ?gt xs)"
  proof (rule sorted_js_sort)
    fix a b assume "?gt a b" then show "\<not> ?gt b a" by (rule minus_positive_asym)
  next
    fix a b c assume "\<not> ?gt a b" "\<not> ?gt b c"
    then show "\<not> ?gt a c" using nn [of b] by (rule minus_positive_negtrans)
  qed
  then show ?thesis
    by (rule sorted_wrt_mono_rel [rotated]) (simp add: minus_positive_iff nn)
qed

lemma stable_by_key:
  "filter (\<lambda>x. f x = k) (js_sort (\<lambda>a b. minus_positive (f a) (f b)) xs) = filter (\<lambda>x. f x = k) xs"
  by (rule filter_js_sort) (simp add: minus_positive_refl)

lemma toDouble_cases: "toDouble m e = PosInf \<or> (\<exists>r. toDouble m e = Fin r \<and> 0 \<le> r)"
proof (cases "m = 0")
  case True
  then show ?thesis by (simp add: toDouble_def)
next
  case False
  define x where "x = of_nat m * pow10 e"
  define u where "u = max (floorLog2 x) (- 1022) - 52"
  have p2: "0 < pow2 u" by (simp add: pow2_def)
  have p10: "0 < pow10 e" by (simp add: pow10_def)
  have "0 \<le> x" using p10 by (simp add: x_def)
  then have "0 \<le> x / pow2 u" using p2 by simp
  then have "0 \<le> \<lfloor>x / pow2 u\<rfloor>" by simp
  then have "0 \<le> roundHalfEven (x / pow2 u)" by (auto simp: roundHalfEven_def Let_def)
  then have "0 \<le> of_int (roundHalfEven (x / pow2 u)) * pow2 u" using p2 by simp
  then show ?thesis using False by (auto simp: toDouble_def Let_def x_def u_def)
qed


subsection \<open>Whole numbers below \<open>2^53\<close> are read exactly\<close>








section \<open>Retry policy\<close>






section \<open>Inventory lookups\<close>

lemma getWalmartInventory_Some:
  assumes "getWalmartInventory net t sid code = (Some i, t')"
  shows "\<exists>doc. axios_get net t
             \<lparr>url = ''https://www.walmart.com/ip/'' @ code,
              headers = [(''User-Agent'', USER_AGENT), (''Accept'', ACCEPT)]\<rparr> = (Inr doc, t')
          \<and> i = \<lparr>storeId = sid, chain = Walmart,
                 inStock = includesText (toLowerCase (text_of doc ''.fulfillment-status'')) ''in stock'',
                 quantity = None,
                 aisle = orElse (trim (text_of doc ''.aisle-location'')) ''Ask store associate'',
                 price = orUndefined (parseFloat (replace (trim (text_of doc ''.price-main'')) ''$'' [])),
                 lastUpdated = t'\<rparr>"
  using assms
  by (auto simp: getWalmartInventory_def Let_def split: prod.splits sum.splits)

lemma getTargetInventory_Some:
  assumes "getTargetInventory net t sid code = (Some i, t')"
  shows "\<exists>doc. axios_get net t
             \<lparr>url = ''https://www.target.com/p/a/'' @ code,
              headers = [(''User-Agent'', USER_AGENT), (''Accept'', ACCEPT)]\<rparr> = (Inr doc, t')
          \<and> i = \<lparr>storeId = sid, chain = Target,
                 inStock = includesText (toLowerCase (text_of doc ''.fulfillment-status'')) ''in stock'',
                 quantity = None,
                 aisle = orElse (trim (text_of doc ''.aisle-location'')) ''Ask store associate'',
                 price = orUndefined (parseFloat (replace (trim (text_of doc ''.price'')) ''$'' [])),
                 lastUpdated = t'\<rparr>"
  using assms
  by (auto simp: getTargetInventory_def Let_def split: prod.splits sum.splits)

text \<open>
  C8.  Whenever an inventory lookup of either chain returns a StoreInventory, it comes from
  a retrieved page; \<open>inStock\<close> holds exactly when some stretch of the page's stock-state
  text reads "in stock" once lower-cased, and \<open>aisle\<close> is the trimmed aisle text of the
  page or, when that is empty, the placeholder "Ask store associate".
\<close>

theorem inventory_stock_flag_and_aisle:
  "(getWalmartInventory net t sid code = (Some i, t') \<longrightarrow>
      (\<exists>doc req. axios_get net t req = (Inr doc, t')
         \<and> url req = ''https://www.walmart.com/ip/'' @ code
         \<and> (inStock i \<longleftrightarrow>
              (\<exists>a w b. text_of doc ''.fulfillment-status'' = a @ w @ b
                 \<and> toLowerCase w = ''in stock''))
         \<and> aisle i = (if trim (text_of doc ''.aisle-location'') = [] then ''Ask store associate''
                      else trim (text_of doc ''.aisle-location''))))
   \<and> (getTargetInventory net t sid code = (Some j, t2) \<longrightarrow>
      (\<exists>doc req. axios_get net t req = (Inr doc, t2)
         \<and> url req = ''https://www.target.com/p/a/'' @ code
         \<and> (inStock j \<longleftrightarrow>
              (\<exists>a w b. text_of doc ''.fulfillment-status'' = a @ w @ b
                 \<and> toLowerCase w = ''in stock''))
         \<and> aisle j = (if trim (text_of doc ''.aisle-location'') = [] then ''Ask store associate''
                      else trim (text_of doc ''.aisle-location''))))"
proof (intro conjI impI)
  assume "getWalmartInventory net t sid code = (Some i, t')"
  from getWalmartInventory_Some [OF this] obtain doc where
    d: "axios_get net t
          \<lparr>url = ''https://www.walmart.com/ip/'' @ code,
           headers = [(''User-Agent'', USER_AGENT), (''Accept'', ACCEPT)]\<rparr> = (Inr doc, t')"
    and s: "inStock i = includesText (toLowerCase (text_of doc ''.fulfillment-status'')) ''in stock''"
    and a: "aisle i = orElse (trim (text_of doc ''.aisle-location'')) ''Ask store associate''"
    by auto
  show "\<exists>doc req. axios_get net t req = (Inr doc, t')
         \<and> url req = ''https://www.walmart.com/ip/'' @ code
         \<and> (inStock i \<longleftrightarrow>
              (\<exists>a w b. text_of doc ''.fulfillment-status'' = a @ w @ b
                 \<and> toLowerCase w = ''in stock''))
         \<and> aisle i = (if trim (text_of doc ''.aisle-location'') = [] then ''Ask store associate''
                      else trim (text_of doc ''.aisle-location''))"
    apply (rule exI [of _ doc])
    apply (rule exI [of _ "\<lparr>url = ''https://www.walmart.com/ip/'' @ code,
           headers = [(''User-Agent'', USER_AGENT), (''Accept'', ACCEPT)]\<rparr>"])
    using d s a by (simp add: includes_lower_iff orElse_def)
next
  assume "getTargetInventory net t sid code = (Some j, t2)"
  from getTargetInventory_Some [OF this] obtain doc where
    d: "axios_get net t
          \<lparr>url = ''https://www.target.com/p/a/'' @ code,
           headers = [(''User-Agent'', USER_AGENT), (''Accept'', ACCEPT)]\<rparr> = (Inr doc, t2)"
    and s: "inStock j = includesText (toLowerCase (text_of doc ''.fulfillment-status'')) ''in stock''"
    and a: "aisle j = orElse (trim (text_of doc ''.aisle-location'')) ''Ask store associate''"
    by auto
  show "\<exists>doc req. axios_get net t req = (Inr doc, t2)
         \<and> url req = ''https://www.target.com/p/a/'' @ code
         \<and> (inStock j \<longleftrightarrow>
              (\<exists>a w b. text_of doc ''.fulfillment-status'' = a @ w @ b
                 \<and> toLowerCase w = ''in stock''))
         \<and> aisle j = (if trim (text_of doc ''.aisle-location'') = [] then ''Ask store associate''
                      else trim (text_of doc ''.aisle-location''))"
    apply (rule exI [of _ doc])
    apply (rule exI [of _ "\<lparr>url = ''https://www.target.com/p/a/'' @ code,
           headers = [(''User-Agent'', USER_AGENT), (''Accept'', ACCEPT)]\<rparr>"])
    using d s a by (simp add: includes_lower_iff orElse_def)
qed

theorem inventory_stock_flag_and_aisle_witness:
  "getWalmartInventory (respondWith [Inr stockedPage]) 0 ''1001'' ''012345''
     = (Some \<lparr>storeId = ''1001'', chain = Walmart, inStock = True, quantity = None,
               aisle = ''Ask store associate'', price = Some (Fin (9 / 2)), lastUpdated = 1\<rparr>, 1)
   \<and> getTargetInventory (respondWith [Inr stockedPage]) 0 ''1001'' ''012345''
     = (Some \<lparr>storeId = ''1001'', chain = Target, inStock = True, quantity = None,
               aisle = ''Ask store associate'', price = Some (Fin (9 / 2)), lastUpdated = 1\<rparr>, 1)
   \<and> (\<exists>doc req. axios_get (respondWith [Inr stockedPage]) 0 req = (Inr doc, 1)
         \<and> url req = ''https://www.walmart.com/ip/'' @ ''012345''
         \<and> (\<exists>a w b. text_of doc ''.fulfillment-status'' = a @ w @ b
                 \<and> toLowerCase w = ''in stock''))
   \<and> (\<exists>doc req. axios_get (respondWith [Inr stockedPage]) 0 req = (Inr doc, 1)
         \<and> url req = ''https://www.target.com/p/a/'' @ ''012345''
         \<and> (\<exists>a w b. text_of doc ''.fulfillment-status'' = a @ w @ b
                 \<and> toLowerCase w = ''in stock''))"
proof -
  let ?net = "respondWith [Inr stockedPage]"
  let ?iw = "\<lparr>storeId = ''1001'', chain = Walmart, inStock = True, quantity = None,
               aisle = ''Ask store associate'', price = Some (Fin (9 / 2)), lastUpdated = 1\<rparr>"
  let ?it = "\<lparr>storeId = ''1001'', chain = Target, inStock = True, quantity = None,
               aisle = ''Ask store associate'', price = Some (Fin (9 / 2)), lastUpdated = 1\<rparr>"
  have w: "getWalmartInventory ?net 0 ''1001'' ''012345'' = (Some ?iw, 1)"
    by code_simp
  have g: "getTargetInventory ?net 0 ''1001'' ''012345'' = (Some ?it, 1)"
    by code_simp
  have sw: "inStock ?iw" and st: "inStock ?it"
    by simp_all
  from inventory_stock_flag_and_aisle [of ?net 0 "''1001''" "''012345''" ?iw 1 ?it 1] w g sw st
  show ?thesis by blast
qed

text \<open>
  C10.  Whenever an inventory lookup of either chain returns a StoreInventory, its price is
  absent when the price text of the page (trimmed, first dollar sign removed) parses to zero
  or does not parse, and is the parsed number otherwise; so a price that is present is never
  zero (and never NaN): a free item is reported without a price.
\<close>

theorem price_absent_when_zero_or_unparsed:
  "(getWalmartInventory net t sid code = (Some i, t') \<longrightarrow>
      price i \<noteq> Some (Fin 0) \<and> price i \<noteq> Some NaN
      \<and> (\<exists>doc req. axios_get net t req = (Inr doc, t')
            \<and> url req = ''https://www.walmart.com/ip/'' @ code
            \<and> price i =
                (let p = parseFloat (replace (trim (text_of doc ''.price-main'')) ''$'' [])
                 in if p = Fin 0 \<or> p = NaN then None else Some p)))
   \<and> (getTargetInventory net t sid code = (Some j, t2) \<longrightarrow>
      price j \<noteq> Some (Fin 0) \<and> price j \<noteq> Some NaN
      \<and> (\<exists>doc req. axios_get net t req = (Inr doc, t2)
            \<and> url req = ''https://www.target.com/p/a/'' @ code
            \<and> price j =
                (let p = parseFloat (replace (trim (text_of doc ''.price'')) ''$'' [])
                 in if p = Fin 0 \<or> p = NaN then None else Some p)))"
proof (intro conjI impI)
  assume h: "getWalmartInventory net t sid code = (Some i, t')"
  from getWalmartInventory_Some [OF h] obtain doc where
    d: "axios_get net t
          \<lparr>url = ''https://www.walmart.com/ip/'' @ code,
           headers = [(''User-Agent'', USER_AGENT), (''Accept'', ACCEPT)]\<rparr> = (Inr doc, t')"
    and p: "price i = orUndefined (parseFloat (replace (trim (text_of doc ''.price-main'')) ''$'' []))"
    by auto
  show "price i \<noteq> Some (Fin 0)" "price i \<noteq> Some NaN"
    using p by (auto simp: orUndefined_cases)
  show "\<exists>doc req. axios_get net t req = (Inr doc, t')
            \<and> url req = ''https://www.walmart.com/ip/'' @ code
            \<and> price i =
                (let p = parseFloat (replace (trim (text_of doc ''.price-main'')) ''$'' [])
                 in if p = Fin 0 \<or> p = NaN then None else Some p)"
    apply (rule exI [of _ doc])
    apply (rule exI [of _ "\<lparr>url = ''https://www.walmart.com/ip/'' @ code,
           headers = [(''User-Agent'', USER_AGENT), (''Accept'', ACCEPT)]\<rparr>"])
    using d p by (auto simp: orUndefined_cases Let_def)
next
  assume h: "getTargetInventory net t sid code = (Some j, t2)"
  from getTargetInventory_Some [OF h] obtain doc where
    d: "axios_get net t
          \<lparr>url = ''https://www.target.com/p/a/'' @ code,
           headers = [(''User-Agent'', USER_AGENT), (''Accept'', ACCEPT)]\<rparr> = (Inr doc, t2)"
    and p: "price j = orUndefined (parseFloat (replace (trim (text_of doc ''.price'')) ''$'' []))"
    by auto
  show "price j \<noteq> Some (Fin 0)" "price j \<noteq> Some NaN"
    using p by (auto simp: orUndefined_cases)
  show "\<exists>doc req. axios_get net t req = (Inr doc, t2)
            \<and> url req = ''https://www.target.com/p/a/'' @ code
            \<and> price j =
                (let p = parseFloat (replace (trim (text_of doc ''.price'')) ''$'' [])
                 in if p = Fin 0 \<or> p = NaN then None else Some p)"
    apply (rule exI [of _ doc])
    apply (rule exI [of _ "\<lparr>url = ''https://www.target.com/p/a/'' @ code,
           headers = [(''User-Agent'', USER_AGENT), (''Accept'', ACCEPT)]\<rparr>"])
    using d p by (auto simp: orUndefined_cases Let_def)
qed

theorem price_absent_when_zero_or_unparsed_witness:
  "getWalmartInventory (respondWith [Inr freePage]) 0 ''1001'' ''012345''
     = (Some \<lparr>storeId = ''1001'', chain = Walmart, inStock = True, quantity = None,
               aisle = ''A12'', price = None, lastUpdated = 1\<rparr>, 1)
   \<and> getTargetInventory (respondWith [Inr freePage]) 0 ''1001'' ''012345''
     = (Some \<lparr>storeId = ''1001'', chain = Target, inStock = True, quantity = None,
               aisle = ''A12'', price = None, lastUpdated = 1\<rparr>, 1)
   \<and> (\<exists>doc req. axios_get (respondWith [Inr freePage]) 0 req = (Inr doc, 1)
         \<and> url req = ''https://www.walmart.com/ip/'' @ ''012345''
         \<and> (let p = parseFloat (replace (trim (text_of doc ''.price-main'')) ''$'' [])
             in p = Fin 0 \<or> p = NaN))
   \<and> (\<exists>doc req. axios_get (respondWith [Inr freePage]) 0 req = (Inr doc, 1)
         \<and> url req = ''https://www.target.com/p/a/'' @ ''012345''
         \<and> (let p = parseFloat (replace (trim (text_of doc ''.price'')) ''$'' [])
             in p = Fin 0 \<or> p = NaN))"
proof -
  let ?net = "respondWith [Inr freePage]"
  let ?iw = "\<lparr>storeId = ''1001'', chain = Walmart, inStock = True, quantity = None,
               aisle = ''A12'', price = None, lastUpdated = 1\<rparr>"
  let ?it = "\<lparr>storeId = ''1001'', chain = Target, inStock = True, quantity = None,
               aisle = ''A12'', price = None, lastUpdated = 1\<rparr>"
  have w: "getWalmartInventory ?net 0 ''1001'' ''012345'' = (Some ?iw, 1)"
    by code_simp
  have g: "getTargetInventory ?net 0 ''1001'' ''012345'' = (Some ?it, 1)"
    by code_simp
  have pw: "price ?iw = None" and pt: "price ?it = None"
    by simp_all
  from price_absent_when_zero_or_unparsed [of ?net 0 "''1001''" "''012345''" ?iw 1 ?it 1] w g
  have "(\<exists>doc req. axios_get ?net 0 req = (Inr doc, 1)
            \<and> url req = ''https://www.walmart.com/ip/'' @ ''012345''
            \<and> price ?iw =
                (let p = parseFloat (replace (trim (text_of doc ''.price-main'')) ''$'' [])
                 in if p = Fin 0 \<or> p = NaN then None else Some p))
      \<and> (\<exists>doc req. axios_get ?net 0 req = (Inr doc, 1)
            \<and> url req = ''https://www.target.com/p/a/'' @ ''012345''
            \<and> price ?it =
                (let p = parseFloat (replace (trim (text_of doc ''.price'')) ''$'' [])
                 in if p = Fin 0 \<or> p = NaN then None else Some p))"
    by blast
  then show ?thesis
    using w g unfolding pw pt Let_def by (auto split: if_splits)
qed

section \<open>Resolution\<close>

subsection \<open>The candidate list\<close>

lemma distanceOrInfinity_not_NaN: "distanceOrInfinity s \<noteq> NaN"
  by (cases "loc_distance s") (auto simp: distanceOrInfinity_def)

lemma sortStores_by_key:
  "sortStores ws ts = js_sort (\<lambda>a b. minus_positive (distanceOrInfinity a) (distanceOrInfinity b)) (ws @ ts)"
  by (simp add: sortStores_def byDistance_def [abs_def])

lemma sortStores_sorted:
  "sorted_wrt (\<lambda>a b. js_le (distanceOrInfinity a) (distanceOrInfinity b)) (sortStores ws ts)"
  unfolding sortStores_by_key by (rule sorted_by_key) (rule distanceOrInfinity_not_NaN)

lemma sortStores_stable:
  "filter (\<lambda>s. distanceOrInfinity s = k) (sortStores ws ts)
   = filter (\<lambda>s. distanceOrInfinity s = k) (ws @ ts)"
  unfolding sortStores_by_key by (rule stable_by_key)

lemma sortStores_mset: "mset (sortStores ws ts) = mset ws + mset ts"
  by (simp add: sortStores_def mset_js_sort)

lemma find_filter_head: "filter P xs = y # ys \<Longrightarrow> find P xs = Some y"
  by (induction xs) (auto split: if_splits)

text \<open>
  The head of the candidate list has the least value of \<^verbatim>\<open>distance || Infinity\<close>, and
  among the candidates with that value it is the first of the concatenated input.
\<close>

lemma sortStores_head:
  assumes "sortStores ws ts = nearest # rest"
  shows "\<forall>s \<in> set (ws @ ts). js_le (distanceOrInfinity nearest) (distanceOrInfinity s)"
    and "find (\<lambda>s. distanceOrInfinity s = distanceOrInfinity nearest) (ws @ ts) = Some nearest"
proof -
  have srt: "sorted_wrt (\<lambda>a b. js_le (distanceOrInfinity a) (distanceOrInfinity b)) (nearest # rest)"
    using sortStores_sorted [of ws ts] assms by simp
  have "set (ws @ ts) = set (nearest # rest)"
    using sortStores_mset [of ws ts] assms by (metis mset_append set_mset_mset)
  then show "\<forall>s \<in> set (ws @ ts). js_le (distanceOrInfinity nearest) (distanceOrInfinity s)"
    using srt by (auto simp: js_le_refl distanceOrInfinity_not_NaN)
  have "filter (\<lambda>s. distanceOrInfinity s = distanceOrInfinity nearest) (ws @ ts)
        = filter (\<lambda>s. distanceOrInfinity s = distanceOrInfinity nearest) (nearest # rest)"
    using sortStores_stable [of "distanceOrInfinity nearest" ws ts] assms by simp
  then have "filter (\<lambda>s. distanceOrInfinity s = distanceOrInfinity nearest) (ws @ ts)
        = nearest # filter (\<lambda>s. distanceOrInfinity s = distanceOrInfinity nearest) rest"
    by simp
  then show "find (\<lambda>s. distanceOrInfinity s = distanceOrInfinity nearest) (ws @ ts) = Some nearest"
    by (rule find_filter_head)
qed

lemma getInventory_Some:
  assumes "getInventory net t s code = (Some i, t')"
  shows "storeId i = loc_storeId s \<and> chain i = loc_chain s"
proof (cases "loc_chain s")
  case Walmart
  with assms have "getWalmartInventory net t (loc_storeId s) code = (Some i, t')"
    by (simp add: getInventory_def)
  from getWalmartInventory_Some [OF this] Walmart show ?thesis by auto
next
  case Target
  with assms have "getTargetInventory net t (loc_storeId s) code = (Some i, t')"
    by (simp add: getInventory_def)
  from getTargetInventory_Some [OF this] Target show ?thesis by auto
qed

lemma alternativesLoop_result:
  assumes "alternativesLoop net t code stores acc = (res, t')"
  shows "\<exists>new. res = acc @ new \<and> (\<forall>a \<in> set new. inStock a)
           \<and> subseq (map invKey new) (map locKey stores)"
  using assms
proof (induction stores arbitrary: t acc)
  case Nil
  then show ?case by simp
next
  case (Cons s rest)
  obtain r t1 where g: "getInventory net t s code = (r, t1)"
    by (cases "getInventory net t s code")
  show ?case
  proof (cases r)
    case None
    with g Cons.prems have "alternativesLoop net t1 code rest acc = (res, t')" by simp
    from Cons.IH [OF this] obtain new where
      n: "res = acc @ new" "\<forall>a \<in> set new. inStock a" "subseq (map invKey new) (map locKey rest)"
      by blast
    then have "subseq (map invKey new) (map locKey (s # rest))" by (simp add: list_emb_Cons)
    with n show ?thesis by blast
  next
    case (Some i)
    show ?thesis
    proof (cases "inStock i")
      case False
      with Some g Cons.prems have "alternativesLoop net t1 code rest acc = (res, t')" by simp
      from Cons.IH [OF this] obtain new where
        n: "res = acc @ new" "\<forall>a \<in> set new. inStock a" "subseq (map invKey new) (map locKey rest)"
        by blast
      then have "subseq (map invKey new) (map locKey (s # rest))" by (simp add: list_emb_Cons)
      with n show ?thesis by blast
    next
      case True
      with Some g Cons.prems have "alternativesLoop net t1 code rest (acc @ [i]) = (res, t')" by simp
      from Cons.IH [OF this] obtain new where
        n: "res = (acc @ [i]) @ new" "\<forall>a \<in> set new. inStock a"
           "subseq (map invKey new) (map locKey rest)"
        by blast
      have k: "invKey i = locKey s"
        using getInventory_Some [of net t s code i t1] g Some by (simp add: invKey_def locKey_def)
      have "res = acc @ (i # new)" using n(1) by simp
      moreover have "\<forall>a \<in> set (i # new). inStock a" using n(2) True by simp
      moreover have "subseq (map invKey (i # new)) (map locKey (s # rest))"
        using n(3) k by simp
      ultimately show ?thesis by blast
    qed
  qed
qed


lemma alternativesLoop_lookups:
  "fst (alternativesLoop net t code stores acc)
   = acc @ filter inStock (found (lookups net t code stores))"
proof (induction stores arbitrary: t acc)
  case Nil
  show ?case by (simp add: found_def)
next
  case (Cons s rest)
  obtain r t1 where g: "getInventory net t s code = (r, t1)"
    by (cases "getInventory net t s code")
  show ?case
  proof (cases r)
    case None
    with g Cons [of t1 acc] show ?thesis by (simp add: found_def)
  next
    case (Some i)
    with g Cons [of t1 "acc @ [i]"] Cons [of t1 acc] show ?thesis by (simp add: found_def)
  qed
qed

lemma withStores_identity:
  "name (withStores net t code z p) = name p \<and> image (withStores net t code z p) = image p
   \<and> barcode (withStores net t code z p) = barcode p \<and> brand (withStores net t code z p) = brand p"
  by (auto simp: withStores_def Let_def split: prod.splits list.splits option.splits)

lemma scrape_no_alternatives:
  "scrapeWalmartProduct net t code = (Some p, t') \<Longrightarrow> alternativeStores p = None \<and> \<not> inStock (inventory p) \<and> storeId (inventory p) = ''unknown''"
  "scrapeTargetProduct net t code = (Some p, t') \<Longrightarrow> alternativeStores p = None \<and> \<not> inStock (inventory p) \<and> storeId (inventory p) = ''unknown''"
  by (auto simp: scrapeWalmartProduct_def scrapeTargetProduct_def Let_def
      split: prod.splits sum.splits if_splits)

lemma withStores_alternatives:
  assumes p: "alternativeStores p = None" "\<not> inStock (inventory p)"
    and r: "alternativeStores (withStores net t code z p) = Some alts"
  shows "\<exists>nearest rest t1. allStoresAt net t z = (nearest # rest, t1)
           \<and> 0 < length alts \<and> (\<forall>a \<in> set alts. inStock a)
           \<and> subseq (map invKey alts) (map locKey (slice 1 4 (nearest # rest)))
           \<and> \<not> inStock (inventory (withStores net t code z p))
           \<and> (inventory (withStores net t code z p) = inventory p
               \<or> invKey (inventory (withStores net t code z p)) = locKey nearest)
           \<and> (\<exists>t2. alts = filter inStock (found (lookups net t2 code (slice 1 4 (nearest # rest)))))"
proof -
  obtain allStores t1 where a: "allStoresAt net t z = (allStores, t1)"
    by (cases "allStoresAt net t z")
  show ?thesis
  proof (cases allStores)
    case Nil
    with a r p show ?thesis by (simp add: withStores_def)
  next
    case (Cons nearest rest)
    obtain primary t2 where g: "getInventory net t1 nearest code = (primary, t2)"
      by (cases "getInventory net t1 nearest code")
    obtain alternatives t3 where
      l: "alternativesLoop net t2 code (slice 1 4 (nearest # rest)) [] = (alternatives, t3)"
      by (cases "alternativesLoop net t2 code (slice 1 4 (nearest # rest)) []")
    from alternativesLoop_result [OF l] have
      al: "\<forall>a \<in> set alternatives. inStock a"
          "subseq (map invKey alternatives) (map locKey (slice 1 4 (nearest # rest)))"
      by auto
    have "alternatives = filter inStock (found (lookups net t2 code (slice 1 4 (nearest # rest))))"
      using alternativesLoop_lookups [of net t2 code "slice 1 4 (nearest # rest)" "[]"] l by simp
    then have lk: "\<exists>t2. alternatives
                     = filter inStock (found (lookups net t2 code (slice 1 4 (nearest # rest))))"
      by blast
    show ?thesis
    proof (cases primary)
      case None
      with a Cons g l r p have "alts = alternatives" "0 < length alternatives"
        by (auto simp: withStores_def Let_def split: if_splits)
      moreover have "inventory (withStores net t code z p) = inventory p"
        using None a Cons g l by (simp add: withStores_def Let_def)
      ultimately show ?thesis using a Cons al p lk by auto
    next
      case (Some i)
      show ?thesis
      proof (cases "inStock i")
        case True
        with Some a Cons g r p show ?thesis by (simp add: withStores_def Let_def)
      next
        case False
        with Some a Cons g l r p have "alts = alternatives" "0 < length alternatives"
          by (auto simp: withStores_def Let_def split: if_splits)
        moreover have "inventory (withStores net t code z p) = i"
          using Some False a Cons g l by (simp add: withStores_def Let_def)
        moreover have "invKey i = locKey nearest"
          using getInventory_Some [of net t1 nearest code i t2] g Some
          by (simp add: invKey_def locKey_def)
        ultimately show ?thesis using a Cons al False lk by auto
      qed
    qed
  qed
qed

lemma length_subseq_le: "subseq xs ys \<Longrightarrow> length xs \<le> length ys"
  by (rule list_emb_length)

lemma getProductInfo_cases:
  assumes "getProductInfo net t code zipCode = Some r"
  shows "\<exists>p t0 t1. (scrapeWalmartProduct net t0 code = (Some p, t1) \<or> scrapeTargetProduct net t0 code = (Some p, t1))
           \<and> (r = p \<or> (\<exists>z. zipCode = Some z \<and> z \<noteq> [] \<and> r = withStores net t1 code z p))"
proof -
  obtain w t1 where w: "scrapeWalmartProduct net t code = (w, t1)"
    by (cases "scrapeWalmartProduct net t code")
  show ?thesis
  proof (cases w)
    case (Some p)
    with w assms have "r = p \<or> (\<exists>z. zipCode = Some z \<and> z \<noteq> [] \<and> r = withStores net t1 code z p)"
      by (auto simp: getProductInfo_def split: option.splits if_splits)
    with w Some show ?thesis by blast
  next
    case None
    obtain g t2 where g: "scrapeTargetProduct net t1 code = (g, t2)"
      by (cases "scrapeTargetProduct net t1 code")
    with w None assms obtain p where p: "g = Some p"
      by (cases g) (auto simp: getProductInfo_def)
    with w None g assms
    have "r = p \<or> (\<exists>z. zipCode = Some z \<and> z \<noteq> [] \<and> r = withStores net t2 code z p)"
      by (auto simp: getProductInfo_def split: option.splits if_splits)
    with g p show ?thesis by blast
  qed
qed

text \<open>
  C3 (amended).  When a result of \<^verbatim>\<open>getProductInfo\<close> has \<^verbatim>\<open>alternativeStores\<close>, the list is not
  empty and has at most 3 elements, each of them in stock; the primary inventory of the result
  is not in stock; the alternatives are, in order, the answers in stock among the lookups at
  the candidates at positions 2 to 4 of the sorted candidate list; the primary inventory is
  the placeholder or the observation at the nearest candidate; and when the candidates' store ids are pairwise
  distinct, no alternative has the store id of the nearest candidate.
\<close>

theorem alternative_stores_properties:
  assumes "getProductInfo net t code zipCode = Some r"
    and "alternativeStores r = Some alts"
  shows "0 < length alts \<and> length alts \<le> 3
     \<and> (\<forall>a \<in> set alts. inStock a)
     \<and> \<not> inStock (inventory r)
     \<and> (\<exists>z t1 t2 nearest rest. zipCode = Some z \<and> allStoresAt net t1 z = (nearest # rest, t2)
           \<and> subseq (map invKey alts) (map locKey (slice 1 4 (nearest # rest)))
           \<and> (\<exists>t3. alts = filter inStock (found (lookups net t3 code (slice 1 4 (nearest # rest)))))
           \<and> (storeId (inventory r) = ''unknown'' \<or> invKey (inventory r) = locKey nearest)
           \<and> (distinct (map loc_storeId (nearest # rest))
                \<longrightarrow> (\<forall>a \<in> set alts. storeId a \<noteq> loc_storeId nearest)))"
proof -
  from getProductInfo_cases [OF assms(1)] obtain p t0 t1 where
    s: "scrapeWalmartProduct net t0 code = (Some p, t1) \<or> scrapeTargetProduct net t0 code = (Some p, t1)"
    and c: "r = p \<or> (\<exists>z. zipCode = Some z \<and> z \<noteq> [] \<and> r = withStores net t1 code z p)"
    by blast
  from s have p: "alternativeStores p = None" "\<not> inStock (inventory p)" "storeId (inventory p) = ''unknown''"
    using scrape_no_alternatives by blast+
  with c assms(2) obtain z where z: "zipCode = Some z" "r = withStores net t1 code z p"
    by auto
  from withStores_alternatives [OF p(1,2), of net t1 code z alts] assms(2) z(2)
  obtain nearest rest t2 where
    a: "allStoresAt net t1 z = (nearest # rest, t2)"
    and n: "0 < length alts" "\<forall>a \<in> set alts. inStock a"
    and sub: "subseq (map invKey alts) (map locKey (slice 1 4 (nearest # rest)))"
    and pr: "\<not> inStock (inventory r)"
       "inventory r = inventory p \<or> invKey (inventory r) = locKey nearest"
    and lk: "\<exists>t3. alts = filter inStock (found (lookups net t3 code (slice 1 4 (nearest # rest))))"
    by auto
  have len: "length alts \<le> 3"
    using length_subseq_le [OF sub] by (simp add: slice_def)
  have known: "storeId (inventory r) = ''unknown'' \<or> invKey (inventory r) = locKey nearest"
    using pr(2) p(3) by auto
  have dist: "\<forall>a \<in> set alts. storeId a \<noteq> loc_storeId nearest"
    if d: "distinct (map loc_storeId (nearest # rest))"
  proof
    fix a assume "a \<in> set alts"
    then have "invKey a \<in> set (map invKey alts)" by simp
    with sub obtain y where "y \<in> set (map locKey (slice 1 4 (nearest # rest)))" "invKey a = y"
      by (rule list_emb_set)
    then have "invKey a \<in> set (map locKey (take 3 rest))"
      by (simp add: slice_def)
    then have "invKey a \<in> locKey ` set rest"
      using set_take_subset [of 3 rest] by auto
    then have "storeId a \<in> loc_storeId ` set rest"
      by (auto simp: invKey_def locKey_def)
    with d show "storeId a \<noteq> loc_storeId nearest" by auto
  qed
  from z(1) a n len sub lk pr(1) known dist show ?thesis by blast
qed

theorem alternative_stores_properties_witness:
  "getProductInfo widgetNetwork 0 ''012345'' (Some ''90210'') =
     Some \<lparr>name = ''Widget'', image = [], barcode = ''012345'',
            inventory = \<lparr>storeId = ''T1'', chain = Target, inStock = False, quantity = None,
                         aisle = ''Ask store associate'', price = None, lastUpdated = 5\<rparr>,
            alternativeStores =
              Some [\<lparr>storeId = ''W1'', chain = Walmart, inStock = True, quantity = None,
                     aisle = ''Ask store associate'', price = Some (Fin (9 / 2)), lastUpdated = 6\<rparr>,
                    \<lparr>storeId = ''T2'', chain = Target, inStock = True, quantity = None,
                     aisle = ''Ask store associate'', price = Some (Fin (9 / 2)), lastUpdated = 7\<rparr>],
            brand = Some []\<rparr>
   \<and> map loc_storeId (fst (allStoresAt widgetNetwork 2 ''90210'')) = [''T1'', ''W1'', ''T2'']
   \<and> distinct (map loc_storeId (fst (allStoresAt widgetNetwork 2 ''90210'')))
   \<and> (\<exists>z t1 t2 nearest rest. Some ''90210'' = Some z
         \<and> allStoresAt widgetNetwork t1 z = (nearest # rest, t2)
         \<and> subseq [(''W1'', Walmart), (''T2'', Target)] (map locKey (slice 1 4 (nearest # rest))))"
proof -
  let ?r = "\<lparr>name = ''Widget'', image = [], barcode = ''012345'',
            inventory = \<lparr>storeId = ''T1'', chain = Target, inStock = False, quantity = None,
                         aisle = ''Ask store associate'', price = None, lastUpdated = 5\<rparr>,
            alternativeStores =
              Some [\<lparr>storeId = ''W1'', chain = Walmart, inStock = True, quantity = None,
                     aisle = ''Ask store associate'', price = Some (Fin (9 / 2)), lastUpdated = 6\<rparr>,
                    \<lparr>storeId = ''T2'', chain = Target, inStock = True, quantity = None,
                     aisle = ''Ask store associate'', price = Some (Fin (9 / 2)), lastUpdated = 7\<rparr>],
            brand = Some []\<rparr>"
  let ?alts = "[\<lparr>storeId = ''W1'', chain = Walmart, inStock = True, quantity = None,
                     aisle = ''Ask store associate'', price = Some (Fin (9 / 2)), lastUpdated = 6\<rparr>,
                    \<lparr>storeId = ''T2'', chain = Target, inStock = True, quantity = None,
                     aisle = ''Ask store associate'', price = Some (Fin (9 / 2)), lastUpdated = 7\<rparr>]"
  have g: "getProductInfo widgetNetwork 0 ''012345'' (Some ''90210'') = Some ?r"
    by code_simp
  have a: "alternativeStores ?r = Some ?alts"
    by simp
  have c: "map loc_storeId (fst (allStoresAt widgetNetwork 2 ''90210'')) = [''T1'', ''W1'', ''T2'']"
    by code_simp
  have d: "distinct (map loc_storeId (fst (allStoresAt widgetNetwork 2 ''90210'')))"
    unfolding c by simp
  have k: "map invKey ?alts = [(''W1'', Walmart), (''T2'', Target)]"
    by (simp add: invKey_def)
  from alternative_stores_properties [OF g a]
  have "\<exists>z t1 t2 nearest rest. Some ''90210'' = Some z
         \<and> allStoresAt widgetNetwork t1 z = (nearest # rest, t2)
         \<and> subseq (map invKey ?alts) (map locKey (slice 1 4 (nearest # rest)))"
    by blast
  with g c d show ?thesis unfolding k by blast
qed

text \<open>
  A Walmart store and a Target store with the same store number: the alternative listed has
  the store id of the primary inventory, and both ids are known.
\<close>

theorem shared_store_id_counterexample:
  "getProductInfo sameNumberNetwork 0 ''012345'' (Some ''90210'') =
     Some \<lparr>name = ''Widget'', image = [], barcode = ''012345'',
            inventory = \<lparr>storeId = ''1234'', chain = Walmart, inStock = False, quantity = None,
                         aisle = ''Ask store associate'', price = None, lastUpdated = 4\<rparr>,
            alternativeStores =
              Some [\<lparr>storeId = ''1234'', chain = Target, inStock = True, quantity = None,
                     aisle = ''Ask store associate'', price = Some (Fin (9 / 2)), lastUpdated = 5\<rparr>],
            brand = Some []\<rparr>"
  by code_simp

text \<open>
  C4.  \<^verbatim>\<open>getProductInfo\<close> asks Walmart first and Target only when Walmart gave nothing; the
  first answer found supplies name, image, barcode and brand of the result.  The result is
  null exactly when both lookups give null, and a lookup gives null exactly when its request
  fails or its page has no product name.
\<close>

theorem product_identity_first_non_null:
  "(getProductInfo net t code zipCode = None \<longleftrightarrow>
      fst (scrapeWalmartProduct net t code) = None
      \<and> fst (scrapeTargetProduct net (snd (scrapeWalmartProduct net t code)) code) = None)
   \<and> (fst (scrapeWalmartProduct net t code) = Some p \<longrightarrow>
        (\<exists>r. getProductInfo net t code zipCode = Some r \<and> name r = name p \<and> image r = image p
           \<and> barcode r = barcode p \<and> brand r = brand p))
   \<and> (fst (scrapeWalmartProduct net t code) = None
        \<and> fst (scrapeTargetProduct net (snd (scrapeWalmartProduct net t code)) code) = Some q \<longrightarrow>
        (\<exists>r. getProductInfo net t code zipCode = Some r \<and> name r = name q \<and> image r = image q
           \<and> barcode r = barcode q \<and> brand r = brand q))
   \<and> (fst (scrapeWalmartProduct net t code) = None \<longleftrightarrow>
        (\<forall>doc. fst (axios_get net t \<lparr>url = ''https://www.walmart.com/ip/'' @ code,
                                      headers = [(''User-Agent'', USER_AGENT)]\<rparr>) = Inr doc
           \<longrightarrow> trim (text_of doc ''.prod-title'') = []))
   \<and> (fst (scrapeTargetProduct net u code) = None \<longleftrightarrow>
        (\<forall>doc. fst (axios_get net u \<lparr>url = ''https://www.target.com/p/a/'' @ code,
                                      headers = [(''User-Agent'', USER_AGENT)]\<rparr>) = Inr doc
           \<longrightarrow> trim (text_of doc ''.product-name'') = []))"
proof -
  obtain w t1 where w: "scrapeWalmartProduct net t code = (w, t1)"
    by (cases "scrapeWalmartProduct net t code")
  obtain g t2 where g: "scrapeTargetProduct net t1 code = (g, t2)"
    by (cases "scrapeTargetProduct net t1 code")
  have xw: "fst (scrapeWalmartProduct net t code) = None \<longleftrightarrow>
        (\<forall>doc. fst (axios_get net t \<lparr>url = ''https://www.walmart.com/ip/'' @ code,
                                      headers = [(''User-Agent'', USER_AGENT)]\<rparr>) = Inr doc
           \<longrightarrow> trim (text_of doc ''.prod-title'') = [])"
    by (auto simp: scrapeWalmartProduct_def Let_def split: prod.splits sum.splits)
  have xt: "fst (scrapeTargetProduct net u code) = None \<longleftrightarrow>
        (\<forall>doc. fst (axios_get net u \<lparr>url = ''https://www.target.com/p/a/'' @ code,
                                      headers = [(''User-Agent'', USER_AGENT)]\<rparr>) = Inr doc
           \<longrightarrow> trim (text_of doc ''.product-name'') = [])"
    by (auto simp: scrapeTargetProduct_def Let_def split: prod.splits sum.splits)
  have main: "(getProductInfo net t code zipCode = None \<longleftrightarrow>
      fst (scrapeWalmartProduct net t code) = None
      \<and> fst (scrapeTargetProduct net (snd (scrapeWalmartProduct net t code)) code) = None)
   \<and> (fst (scrapeWalmartProduct net t code) = Some p \<longrightarrow>
        (\<exists>r. getProductInfo net t code zipCode = Some r \<and> name r = name p \<and> image r = image p
           \<and> barcode r = barcode p \<and> brand r = brand p))
   \<and> (fst (scrapeWalmartProduct net t code) = None
        \<and> fst (scrapeTargetProduct net (snd (scrapeWalmartProduct net t code)) code) = Some q \<longrightarrow>
        (\<exists>r. getProductInfo net t code zipCode = Some r \<and> name r = name q \<and> image r = image q
           \<and> barcode r = barcode q \<and> brand r = brand q))"
  proof (cases w)
    case (Some p')
    have "\<exists>r. getProductInfo net t code zipCode = Some r \<and> name r = name p' \<and> image r = image p'
           \<and> barcode r = barcode p' \<and> brand r = brand p'"
      using w Some withStores_identity [of net t1 code _ p']
      by (auto simp: getProductInfo_def split: option.splits)
    with w Some show ?thesis by auto
  next
    case None
    show ?thesis
    proof (cases g)
      case None': None
      with w g None show ?thesis by (simp add: getProductInfo_def)
    next
      case (Some q')
      have "\<exists>r. getProductInfo net t code zipCode = Some r \<and> name r = name q' \<and> image r = image q'
           \<and> barcode r = barcode q' \<and> brand r = brand q'"
        using w g None Some withStores_identity [of net t2 code _ q']
        by (auto simp: getProductInfo_def split: option.splits)
      with w g None Some show ?thesis by auto
    qed
  qed
  from main xw xt show ?thesis by blast
qed

theorem product_identity_first_non_null_witness:
  "fst (scrapeWalmartProduct unknownProductNetwork 0 ''000000'') = None
   \<and> fst (scrapeTargetProduct unknownProductNetwork
             (snd (scrapeWalmartProduct unknownProductNetwork 0 ''000000'')) ''000000'') = None
   \<and> getProductInfo unknownProductNetwork 0 ''000000'' (Some ''90210'') = None
   \<and> fst (scrapeWalmartProduct widgetNetwork 0 ''012345'') = None
   \<and> (\<exists>q. fst (scrapeTargetProduct widgetNetwork
                  (snd (scrapeWalmartProduct widgetNetwork 0 ''012345'')) ''012345'') = Some q
           \<and> name q = ''Widget''
           \<and> (\<exists>r. getProductInfo widgetNetwork 0 ''012345'' (Some ''90210'') = Some r
                  \<and> name r = name q \<and> barcode r = barcode q))
   \<and> (\<exists>p. fst (scrapeWalmartProduct sameNumberNetwork 0 ''012345'') = Some p
           \<and> (\<exists>r. getProductInfo sameNumberNetwork 0 ''012345'' (Some ''90210'') = Some r
                  \<and> name r = name p \<and> barcode r = barcode p))"
proof -
  let ?q = "\<lparr>name = ''Widget'', image = [], barcode = ''012345'',
            inventory = \<lparr>storeId = ''unknown'', chain = Target, inStock = False, quantity = None,
                         aisle = ''unknown'', price = None, lastUpdated = 2\<rparr>,
            alternativeStores = None, brand = Some []\<rparr>"
  let ?p = "\<lparr>name = ''Widget'', image = [], barcode = ''012345'',
            inventory = \<lparr>storeId = ''unknown'', chain = Walmart, inStock = False, quantity = None,
                         aisle = ''unknown'', price = None, lastUpdated = 1\<rparr>,
            alternativeStores = None, brand = Some []\<rparr>"
  have u1: "fst (scrapeWalmartProduct unknownProductNetwork 0 ''000000'') = None"
    by code_simp
  have u2: "fst (scrapeTargetProduct unknownProductNetwork
             (snd (scrapeWalmartProduct unknownProductNetwork 0 ''000000'')) ''000000'') = None"
    by code_simp
  have w1: "fst (scrapeWalmartProduct widgetNetwork 0 ''012345'') = None"
    by code_simp
  have w2: "fst (scrapeTargetProduct widgetNetwork
                  (snd (scrapeWalmartProduct widgetNetwork 0 ''012345'')) ''012345'') = Some ?q"
    by code_simp
  have s1: "fst (scrapeWalmartProduct sameNumberNetwork 0 ''012345'') = Some ?p"
    by code_simp
  have "getProductInfo unknownProductNetwork 0 ''000000'' (Some ''90210'') = None"
    using product_identity_first_non_null [of unknownProductNetwork 0 "''000000''" "Some ''90210''"] u1 u2
    by blast
  moreover have "\<exists>r. getProductInfo widgetNetwork 0 ''012345'' (Some ''90210'') = Some r
                  \<and> name r = name ?q \<and> barcode r = barcode ?q"
    using product_identity_first_non_null [of widgetNetwork 0 "''012345''" "Some ''90210''" _ ?q] w1 w2
    by blast
  moreover have "\<exists>r. getProductInfo sameNumberNetwork 0 ''012345'' (Some ''90210'') = Some r
                  \<and> name r = name ?p \<and> barcode r = barcode ?p"
    using product_identity_first_non_null [of sameNumberNetwork 0 "''012345''" "Some ''90210''" ?p] s1
    by blast
  moreover have "name ?q = ''Widget''" by simp
  ultimately show ?thesis using u1 u2 w1 w2 s1 by blast
qed

text \<open>
  C1.  The candidate list at a concrete input: a store at 0 miles is placed after a store at
  1.5 miles, and the primary inventory is asked at the store at 1.5 miles.
\<close>

theorem zero_distance_store_sorted_last:
  "fst (allStoresAt zeroMilesNetwork 1 ''90210'') =
     [\<lparr>loc_storeId = ''100'', loc_name = ''Walmart Supercenter'', loc_address = ''100 Main St'',
       loc_distance = Some (Fin (3 / 2)), loc_chain = Walmart\<rparr>,
      \<lparr>loc_storeId = ''200'', loc_name = ''Walmart Neighborhood Market'', loc_address = ''1 Here St'',
       loc_distance = Some (Fin 0), loc_chain = Walmart\<rparr>]
   \<and> getProductInfo zeroMilesNetwork 0 ''012345'' (Some ''90210'') =
     Some \<lparr>name = ''Widget'', image = [], barcode = ''012345'',
            inventory = \<lparr>storeId = ''100'', chain = Walmart, inStock = True, quantity = None,
                         aisle = ''Ask store associate'', price = Some (Fin (9 / 2)), lastUpdated = 4\<rparr>,
            alternativeStores = None, brand = Some []\<rparr>"
  by code_simp

section \<open>Route optimizer\<close>

subsection \<open>pushTo\<close>

lemma map_fst_pushTo: "map fst (pushTo k x g) = map fst g"
  by (induction g) auto



lemma groupOf_absent: "k \<notin> fst ` set g \<Longrightarrow> groupOf g k = []"
  by (simp add: groupOf_def map_of_eq_None_iff [THEN iffD2])


subsection \<open>storeStep\<close>

lemma storeStep_keys:
  "map fst (storeStep m item) =
     (case firstStore item of
        None \<Rightarrow> map fst m
      | Some st \<Rightarrow> if st \<in> set (map fst m) then map fst m else map fst m @ [st])"
  by (auto simp: storeStep_def firstStore_def Let_def map_fst_pushTo map_of_eq_None_iff
      split: list.splits)



lemma partitionByStore_snoc: "partitionByStore (its @ [item]) = storeStep (partitionByStore its) item"
  by (simp add: partitionByStore_def)



lemma partitionByStore_keys:
  "map fst (partitionByStore its) =
     rev (remdups (rev (map (the \<circ> firstStore) (filter (\<lambda>i. firstStore i \<noteq> None) its))))"
proof (induction its rule: rev_induct)
  case Nil
  show ?case by (simp add: partitionByStore_def)
next
  case (snoc item its)
  then show ?case
    by (auto simp: partitionByStore_snoc storeStep_keys split: option.splits)
qed


subsection \<open>Grouping by aisle label\<close>




subsection \<open>Object.keys\<close>



subsection \<open>optimizeRoute\<close>










subsection \<open>Routes\<close>









text \<open>
  An item without aisle is grouped under the label "Other" and sorted by the number of that
  label, 998, not by 999: it stays before a later item whose aisle has no digits.
\<close>

lemma absent_aisle_sorted_as_998:
  "optimizeRoute [listed ''a'' ''X'' 1 None, listed ''b'' ''X'' 1 (Some ''Produce'')]
     = Inr [listed ''a'' ''X'' 1 None, listed ''b'' ''X'' 1 (Some ''Produce'')]
   \<and> getAisleNumber None = Fin 999 \<and> getAisleNumber (Some ''Produce'') = Fin 998"
  by code_simp

text \<open>
  A label that is a plain number is an array index of the dictionary, so \<^verbatim>\<open>Object.keys\<close> lists
  it before the other labels: with equal numbers it goes first whatever the input order.
\<close>

lemma numeric_label_first:
  "optimizeRoute [listed ''a'' ''X'' 1 (Some ''Aisle 5''), listed ''b'' ''X'' 1 (Some ''5'')]
     = Inr [listed ''b'' ''X'' 1 (Some ''5''), listed ''a'' ''X'' 1 (Some ''Aisle 5'')]"
  by code_simp

text \<open>An aisle label that \<^verbatim>\<open>Object.prototype\<close> defines makes the optimizer raise.\<close>

lemma inherited_label_raises:
  "optimizeRoute [listed ''a'' ''X'' 1 (Some ''constructor'')] = Inl TypeError"
  by code_simp



section \<open>Parsed numbers and absorbed failures\<close>

lemma unsignedLiteral_sign:
  "unsignedLiteral s = NaN \<or> js_le (Fin 0) (unsignedLiteral s)"
proof -
  have t: "toDouble m e = NaN \<or> js_le (Fin 0) (toDouble m e)" for m e
    using toDouble_cases [of m e] by auto
  show ?thesis
    unfolding unsignedLiteral_def Let_def
    by (auto split: list.splits simp: t)
qed

lemma parseFloat_sign:
  assumes "CHR ''-'' \<notin> set s"
  shows "parseFloat s = NaN \<or> js_le (Fin 0) (parseFloat s)"
proof (cases "trimStart s")
  case Nil
  then show ?thesis by (simp add: parseFloat_def)
next
  case (Cons c t)
  then have "c \<in> set s"
    unfolding trimStart_def by (metis list.set_intros(1) set_dropWhileD)
  with assms have "c \<noteq> CHR ''-''" by auto
  with Cons unsignedLiteral_sign [of t] unsignedLiteral_sign [of "c # t"]
  show ?thesis by (auto simp: parseFloat_def)
qed

lemma set_trim: "set (trim s) \<subseteq> set s"
proof -
  have "set (dropWhile isWhiteSpace (rev (dropWhile isWhiteSpace s))) \<subseteq> set (rev (dropWhile isWhiteSpace s))"
    by (auto dest: set_dropWhileD)
  also have "\<dots> \<subseteq> set s" by (auto dest: set_dropWhileD)
  finally show ?thesis by (simp add: trim_def)
qed

lemma set_replace: "set (replace s p r) \<subseteq> set s \<union> set r"
proof (induction s)
  case Nil
  show ?case by auto
next
  case (Cons c s)
  have "set (drop (length p) (c # s)) \<subseteq> set (c # s)" by (rule set_drop_subset)
  with Cons show ?case by auto
qed

lemma storeOfItem_distance:
  "loc_distance (storeOfItem c element)
     = Some (parseFloat (trim (replace (trim (distance_text element)) ''miles'' [])))"
  by (simp add: storeOfItem_def)

lemma distance_sign:
  assumes "CHR ''-'' \<notin> set (distance_text element)"
  shows "parseFloat (trim (replace (trim (distance_text element)) ''miles'' [])) = NaN
         \<or> js_le (Fin 0) (parseFloat (trim (replace (trim (distance_text element)) ''miles'' [])))"
proof (rule parseFloat_sign)
  have "set (trim (replace (trim (distance_text element)) ''miles'' []))
        \<subseteq> set (distance_text element)"
    using set_trim [of "replace (trim (distance_text element)) ''miles'' []"]
      set_replace [of "trim (distance_text element)" "''miles''" "[]"]
      set_trim [of "distance_text element"]
    by auto
  with assms show "CHR ''-'' \<notin> set (trim (replace (trim (distance_text element)) ''miles'' []))"
    by auto
qed

lemma price_sign:
  assumes "CHR ''-'' \<notin> set str"
  shows "parseFloat (replace (trim str) ''$'' []) = NaN
         \<or> js_le (Fin 0) (parseFloat (replace (trim str) ''$'' []))"
proof (rule parseFloat_sign)
  have "set (replace (trim str) ''$'' []) \<subseteq> set str"
    using set_replace [of "trim str" "''$''" "[]"] set_trim [of str] by auto
  with assms show "CHR ''-'' \<notin> set (replace (trim str) ''$'' [])" by auto
qed

lemma walmart_price_parsed:
  assumes h: "getWalmartInventory net t sid code = (Some i, t') \<and> price i = Some p"
  shows "p \<noteq> NaN \<and> p \<noteq> Fin 0
      \<and> (\<exists>doc. axios_get net t
            \<lparr>url = ''https://www.walmart.com/ip/'' @ code,
             headers = [(''User-Agent'', USER_AGENT), (''Accept'', ACCEPT)]\<rparr> = (Inr doc, t')
            \<and> p = parseFloat (replace (trim (text_of doc ''.price-main'')) ''$'' [])
            \<and> (CHR ''-'' \<notin> set (text_of doc ''.price-main'') \<longrightarrow> js_le (Fin 0) p))"
proof -
  from getWalmartInventory_Some [of net t sid code i t'] h obtain doc where
    d: "axios_get net t
            \<lparr>url = ''https://www.walmart.com/ip/'' @ code,
             headers = [(''User-Agent'', USER_AGENT), (''Accept'', ACCEPT)]\<rparr> = (Inr doc, t')"
    and pr: "price i = orUndefined (parseFloat (replace (trim (text_of doc ''.price-main'')) ''$'' []))"
    by auto
  from pr h have p: "p = parseFloat (replace (trim (text_of doc ''.price-main'')) ''$'' [])"
    "p \<noteq> NaN" "p \<noteq> Fin 0"
    by (auto simp: orUndefined_cases split: if_splits)
  have "CHR ''-'' \<notin> set (text_of doc ''.price-main'') \<longrightarrow> js_le (Fin 0) p"
    using price_sign [of "text_of doc ''.price-main''"] p by auto
  with d p(1) have "\<exists>doc. axios_get net t
            \<lparr>url = ''https://www.walmart.com/ip/'' @ code,
             headers = [(''User-Agent'', USER_AGENT), (''Accept'', ACCEPT)]\<rparr> = (Inr doc, t')
            \<and> p = parseFloat (replace (trim (text_of doc ''.price-main'')) ''$'' [])
            \<and> (CHR ''-'' \<notin> set (text_of doc ''.price-main'') \<longrightarrow> js_le (Fin 0) p)"
    by (intro exI [of _ doc]) simp
  with p(2,3) show ?thesis by (intro conjI)
qed

lemma target_price_parsed:
  assumes h: "getTargetInventory net t sid code = (Some i, t') \<and> price i = Some p"
  shows "p \<noteq> NaN \<and> p \<noteq> Fin 0
      \<and> (\<exists>doc. axios_get net t
            \<lparr>url = ''https://www.target.com/p/a/'' @ code,
             headers = [(''User-Agent'', USER_AGENT), (''Accept'', ACCEPT)]\<rparr> = (Inr doc, t')
            \<and> p = parseFloat (replace (trim (text_of doc ''.price'')) ''$'' [])
            \<and> (CHR ''-'' \<notin> set (text_of doc ''.price'') \<longrightarrow> js_le (Fin 0) p))"
proof -
  from getTargetInventory_Some [of net t sid code i t'] h obtain doc where
    d: "axios_get net t
            \<lparr>url = ''https://www.target.com/p/a/'' @ code,
             headers = [(''User-Agent'', USER_AGENT), (''Accept'', ACCEPT)]\<rparr> = (Inr doc, t')"
    and pr: "price i = orUndefined (parseFloat (replace (trim (text_of doc ''.price'')) ''$'' []))"
    by auto
  from pr h have p: "p = parseFloat (replace (trim (text_of doc ''.price'')) ''$'' [])"
    "p \<noteq> NaN" "p \<noteq> Fin 0"
    by (auto simp: orUndefined_cases split: if_splits)
  have "CHR ''-'' \<notin> set (text_of doc ''.price'') \<longrightarrow> js_le (Fin 0) p"
    using price_sign [of "text_of doc ''.price''"] p by auto
  with d p(1) have "\<exists>doc. axios_get net t
            \<lparr>url = ''https://www.target.com/p/a/'' @ code,
             headers = [(''User-Agent'', USER_AGENT), (''Accept'', ACCEPT)]\<rparr> = (Inr doc, t')
            \<and> p = parseFloat (replace (trim (text_of doc ''.price'')) ''$'' [])
            \<and> (CHR ''-'' \<notin> set (text_of doc ''.price'') \<longrightarrow> js_le (Fin 0) p)"
    by (intro exI [of _ doc]) simp
  with p(2,3) show ?thesis by (intro conjI)
qed

lemma walmart_distance_parsed:
  assumes h: "fst (axios_get net t
            \<lparr>url = ''https://www.walmart.com/store/finder?location='' @ z,
             headers = [(''User-Agent'', USER_AGENT)]\<rparr>) = Inr page
      \<and> k < length (store_list_items page)"
  shows "length (fst (findWalmartStores net t z)) = length (store_list_items page)
      \<and> fst (findWalmartStores net t z) ! k = storeOfItem Walmart (store_list_items page ! k)
      \<and> loc_distance (fst (findWalmartStores net t z) ! k)
          = Some (parseFloat (trim (replace (trim (distance_text (store_list_items page ! k))) ''miles'' [])))
      \<and> (CHR ''-'' \<notin> set (distance_text (store_list_items page ! k)) \<longrightarrow>
            loc_distance (fst (findWalmartStores net t z) ! k) = Some NaN
            \<or> (\<exists>d. loc_distance (fst (findWalmartStores net t z) ! k) = Some d \<and> js_le (Fin 0) d))
      \<and> (loc_distance (fst (findWalmartStores net t z) ! k) = Some NaN \<longrightarrow>
            distanceOrInfinity (fst (findWalmartStores net t z) ! k) = PosInf)"
proof -
  let ?s = "fst (findWalmartStores net t z) ! k"
  let ?e = "store_list_items page ! k"
  from h have l: "fst (findWalmartStores net t z) = map (storeOfItem Walmart) (store_list_items page)"
    by (auto simp: findWalmartStores_def split: prod.splits sum.splits)
  have 0: "length (fst (findWalmartStores net t z)) = length (store_list_items page)"
    by (simp add: l)
  have n: "?s = storeOfItem Walmart ?e"
    using h by (simp add: l)
  have 1: "loc_distance ?s = Some (parseFloat (trim (replace (trim (distance_text ?e)) ''miles'' [])))"
    by (simp only: n storeOfItem_distance)
  have 2: "CHR ''-'' \<notin> set (distance_text ?e) \<longrightarrow>
             loc_distance ?s = Some NaN \<or> (\<exists>d. loc_distance ?s = Some d \<and> js_le (Fin 0) d)"
    using distance_sign [of ?e] 1 by auto
  have 3: "loc_distance ?s = Some NaN \<longrightarrow> distanceOrInfinity ?s = PosInf"
    by (simp add: distanceOrInfinity_def)
  from 0 n 1 2 3 show ?thesis by (intro conjI)
qed

lemma target_distance_parsed:
  assumes h: "fst (axios_get net t
            \<lparr>url = ''https://www.target.com/store-locator/find-stores?address='' @ z,
             headers = [(''User-Agent'', USER_AGENT)]\<rparr>) = Inr page
      \<and> k < length (store_list_items page)"
  shows "length (fst (findTargetStores net t z)) = length (store_list_items page)
      \<and> fst (findTargetStores net t z) ! k = storeOfItem Target (store_list_items page ! k)
      \<and> loc_distance (fst (findTargetStores net t z) ! k)
          = Some (parseFloat (trim (replace (trim (distance_text (store_list_items page ! k))) ''miles'' [])))
      \<and> (CHR ''-'' \<notin> set (distance_text (store_list_items page ! k)) \<longrightarrow>
            loc_distance (fst (findTargetStores net t z) ! k) = Some NaN
            \<or> (\<exists>d. loc_distance (fst (findTargetStores net t z) ! k) = Some d \<and> js_le (Fin 0) d))
      \<and> (loc_distance (fst (findTargetStores net t z) ! k) = Some NaN \<longrightarrow>
            distanceOrInfinity (fst (findTargetStores net t z) ! k) = PosInf)"
proof -
  let ?s = "fst (findTargetStores net t z) ! k"
  let ?e = "store_list_items page ! k"
  from h have l: "fst (findTargetStores net t z) = map (storeOfItem Target) (store_list_items page)"
    by (auto simp: findTargetStores_def split: prod.splits sum.splits)
  have 0: "length (fst (findTargetStores net t z)) = length (store_list_items page)"
    by (simp add: l)
  have n: "?s = storeOfItem Target ?e"
    using h by (simp add: l)
  have 1: "loc_distance ?s = Some (parseFloat (trim (replace (trim (distance_text ?e)) ''miles'' [])))"
    by (simp only: n storeOfItem_distance)
  have 2: "CHR ''-'' \<notin> set (distance_text ?e) \<longrightarrow>
             loc_distance ?s = Some NaN \<or> (\<exists>d. loc_distance ?s = Some d \<and> js_le (Fin 0) d)"
    using distance_sign [of ?e] 1 by auto
  have 3: "loc_distance ?s = Some NaN \<longrightarrow> distanceOrInfinity ?s = PosInf"
    by (simp add: distanceOrInfinity_def)
  from 0 n 1 2 3 show ?thesis by (intro conjI)
qed

text \<open>
  C9 (amended).  A price that is present in a StoreInventory is the number parsed from the
  price text of the page that the lookup retrieved (trimmed, first dollar sign removed); it is
  neither NaN nor zero, and it is not negative when the price text has no minus sign.  A
  store finder returns one StoreLocation per store node of the page it retrieved, in the
  order of the page; the distance of the \<open>k\<close>-th location is the number parsed from the distance
  text of the \<open>k\<close>-th node (trimmed, first "miles" removed): it is NaN when the text does not
  parse, which the candidate sort takes as unknown, and otherwise not negative when the text
  has no minus sign.
\<close>

theorem parsed_numbers_sign:
  "(getWalmartInventory net t sid code = (Some i, t') \<and> price i = Some p \<longrightarrow>
      p \<noteq> NaN \<and> p \<noteq> Fin 0
      \<and> (\<exists>doc. axios_get net t
            \<lparr>url = ''https://www.walmart.com/ip/'' @ code,
             headers = [(''User-Agent'', USER_AGENT), (''Accept'', ACCEPT)]\<rparr> = (Inr doc, t')
            \<and> p = parseFloat (replace (trim (text_of doc ''.price-main'')) ''$'' [])
            \<and> (CHR ''-'' \<notin> set (text_of doc ''.price-main'') \<longrightarrow> js_le (Fin 0) p)))
   \<and> (getTargetInventory net t sid code = (Some j, t2) \<and> price j = Some q \<longrightarrow>
      q \<noteq> NaN \<and> q \<noteq> Fin 0
      \<and> (\<exists>doc. axios_get net t
            \<lparr>url = ''https://www.target.com/p/a/'' @ code,
             headers = [(''User-Agent'', USER_AGENT), (''Accept'', ACCEPT)]\<rparr> = (Inr doc, t2)
            \<and> q = parseFloat (replace (trim (text_of doc ''.price'')) ''$'' [])
            \<and> (CHR ''-'' \<notin> set (text_of doc ''.price'') \<longrightarrow> js_le (Fin 0) q)))
   \<and> (fst (axios_get net t
            \<lparr>url = ''https://www.walmart.com/store/finder?location='' @ z,
             headers = [(''User-Agent'', USER_AGENT)]\<rparr>) = Inr page
      \<and> k < length (store_list_items page) \<longrightarrow>
      length (fst (findWalmartStores net t z)) = length (store_list_items page)
      \<and> fst (findWalmartStores net t z) ! k = storeOfItem Walmart (store_list_items page ! k)
      \<and> loc_distance (fst (findWalmartStores net t z) ! k)
          = Some (parseFloat (trim (replace (trim (distance_text (store_list_items page ! k))) ''miles'' [])))
      \<and> (CHR ''-'' \<notin> set (distance_text (store_list_items page ! k)) \<longrightarrow>
            loc_distance (fst (findWalmartStores net t z) ! k) = Some NaN
            \<or> (\<exists>d. loc_distance (fst (findWalmartStores net t z) ! k) = Some d \<and> js_le (Fin 0) d))
      \<and> (loc_distance (fst (findWalmartStores net t z) ! k) = Some NaN \<longrightarrow>
            distanceOrInfinity (fst (findWalmartStores net t z) ! k) = PosInf))
   \<and> (fst (axios_get net t
            \<lparr>url = ''https://www.target.com/store-locator/find-stores?address='' @ z,
             headers = [(''User-Agent'', USER_AGENT)]\<rparr>) = Inr page'
      \<and> k' < length (store_list_items page') \<longrightarrow>
      length (fst (findTargetStores net t z)) = length (store_list_items page')
      \<and> fst (findTargetStores net t z) ! k' = storeOfItem Target (store_list_items page' ! k')
      \<and> loc_distance (fst (findTargetStores net t z) ! k')
          = Some (parseFloat (trim (replace (trim (distance_text (store_list_items page' ! k'))) ''miles'' [])))
      \<and> (CHR ''-'' \<notin> set (distance_text (store_list_items page' ! k')) \<longrightarrow>
            loc_distance (fst (findTargetStores net t z) ! k') = Some NaN
            \<or> (\<exists>d. loc_distance (fst (findTargetStores net t z) ! k') = Some d \<and> js_le (Fin 0) d))
      \<and> (loc_distance (fst (findTargetStores net t z) ! k') = Some NaN \<longrightarrow>
            distanceOrInfinity (fst (findTargetStores net t z) ! k') = PosInf))"
  apply (intro conjI)
     apply (rule impI, erule walmart_price_parsed)
    apply (rule impI, erule target_price_parsed)
   apply (rule impI, erule walmart_distance_parsed)
  apply (rule impI, erule target_distance_parsed)
  done

text \<open>A price text with a minus sign: the price is present and negative.\<close>

theorem negative_price_counterexample:
  "getWalmartInventory (respondWith [Inr negativePricePage]) 0 ''1001'' ''012345''
     = (Some \<lparr>storeId = ''1001'', chain = Walmart, inStock = False, quantity = None,
               aisle = ''Ask store associate'', price = Some (Fin (- 5)), lastUpdated = 1\<rparr>, 1)
   \<and> \<not> js_le (Fin 0) (Fin (- 5))"
  by code_simp

theorem parsed_numbers_sign_witness:
  "getWalmartInventory (respondWith [Inr stockedPage]) 0 ''1001'' ''012345''
     = (Some \<lparr>storeId = ''1001'', chain = Walmart, inStock = True, quantity = None,
               aisle = ''Ask store associate'', price = Some (Fin (9 / 2)), lastUpdated = 1\<rparr>, 1)
   \<and> getTargetInventory (respondWith [Inr stockedPage]) 0 ''1001'' ''012345''
     = (Some \<lparr>storeId = ''1001'', chain = Target, inStock = True, quantity = None,
               aisle = ''Ask store associate'', price = Some (Fin (9 / 2)), lastUpdated = 1\<rparr>, 1)
   \<and> (\<exists>doc. axios_get (respondWith [Inr stockedPage]) 0
            \<lparr>url = ''https://www.walmart.com/ip/'' @ ''012345'',
             headers = [(''User-Agent'', USER_AGENT), (''Accept'', ACCEPT)]\<rparr> = (Inr doc, 1)
         \<and> Fin (9 / 2) = parseFloat (replace (trim (text_of doc ''.price-main'')) ''$'' []))
   \<and> fst (axios_get widgetNetwork 2
            \<lparr>url = ''https://www.walmart.com/store/finder?location='' @ ''90210'',
             headers = [(''User-Agent'', USER_AGENT)]\<rparr>)
       = Inr (storeListPage
                [\<lparr>data_store_id = Some ''W1'', store_name_text = ''Walmart Supercenter'',
                  store_address_text = ''100 Main St'', distance_text = ''1.5 miles''\<rparr>])
   \<and> fst (axios_get widgetNetwork 3
            \<lparr>url = ''https://www.target.com/store-locator/find-stores?address='' @ ''90210'',
             headers = [(''User-Agent'', USER_AGENT)]\<rparr>)
       = Inr (storeListPage
                [\<lparr>data_store_id = Some ''T1'', store_name_text = ''Target'',
                  store_address_text = ''200 Oak Ave'', distance_text = ''0.5 miles''\<rparr>,
                 \<lparr>data_store_id = Some ''T2'', store_name_text = ''Target North'',
                  store_address_text = ''300 Elm Rd'', distance_text = ''3 miles''\<rparr>])
   \<and> length (fst (findWalmartStores widgetNetwork 2 ''90210'')) = 1
   \<and> fst (findWalmartStores widgetNetwork 2 ''90210'') ! 0
       = storeOfItem Walmart \<lparr>data_store_id = Some ''W1'', store_name_text = ''Walmart Supercenter'',
                  store_address_text = ''100 Main St'', distance_text = ''1.5 miles''\<rparr>
   \<and> loc_distance (fst (findWalmartStores widgetNetwork 2 ''90210'') ! 0) = Some (Fin (3 / 2))
   \<and> length (fst (findTargetStores widgetNetwork 3 ''90210'')) = 2
   \<and> fst (findTargetStores widgetNetwork 3 ''90210'') ! 1
       = storeOfItem Target \<lparr>data_store_id = Some ''T2'', store_name_text = ''Target North'',
                  store_address_text = ''300 Elm Rd'', distance_text = ''3 miles''\<rparr>
   \<and> loc_distance (fst (findTargetStores widgetNetwork 3 ''90210'') ! 1) = Some (Fin 3)
   \<and> js_le (Fin 0) (Fin (3 / 2)) \<and> js_le (Fin 0) (Fin 3)"
proof -
  let ?net = "respondWith [Inr stockedPage]"
  let ?iw = "\<lparr>storeId = ''1001'', chain = Walmart, inStock = True, quantity = None,
               aisle = ''Ask store associate'', price = Some (Fin (9 / 2)), lastUpdated = 1\<rparr>"
  let ?it = "\<lparr>storeId = ''1001'', chain = Target, inStock = True, quantity = None,
               aisle = ''Ask store associate'', price = Some (Fin (9 / 2)), lastUpdated = 1\<rparr>"
  let ?w1 = "\<lparr>data_store_id = Some ''W1'', store_name_text = ''Walmart Supercenter'',
                  store_address_text = ''100 Main St'', distance_text = ''1.5 miles''\<rparr>"
  let ?t1 = "\<lparr>data_store_id = Some ''T1'', store_name_text = ''Target'',
                  store_address_text = ''200 Oak Ave'', distance_text = ''0.5 miles''\<rparr>"
  let ?t2 = "\<lparr>data_store_id = Some ''T2'', store_name_text = ''Target North'',
                  store_address_text = ''300 Elm Rd'', distance_text = ''3 miles''\<rparr>"
  let ?wp = "storeListPage [?w1]"
  let ?tp = "storeListPage [?t1, ?t2]"
  have w: "getWalmartInventory ?net 0 ''1001'' ''012345'' = (Some ?iw, 1)"
    by code_simp
  have g: "getTargetInventory ?net 0 ''1001'' ''012345'' = (Some ?it, 1)"
    by code_simp
  have pw: "price ?iw = Some (Fin (9 / 2))"
    by simp
  have aw: "fst (axios_get widgetNetwork 2 req) = Inr ?wp" for req
    by (simp add: axios_get_def axios_retry.simps [of _ req 2 0] respondWith_def widgetNetwork_def)
  have at: "fst (axios_get widgetNetwork 3 req) = Inr ?tp" for req
    by (simp add: axios_get_def axios_retry.simps [of _ req 3 0] respondWith_def widgetNetwork_def)
  have kw: "0 < length (store_list_items ?wp)" and kt: "1 < length (store_list_items ?tp)"
    by (simp_all add: storeListPage_def)
  have ew: "store_list_items ?wp ! 0 = ?w1" and et: "store_list_items ?tp ! Suc 0 = ?t2"
    by (simp_all add: storeListPage_def)
  have lw: "length (store_list_items ?wp) = 1" and lt: "length (store_list_items ?tp) = 2"
    by (simp_all add: storeListPage_def)
  have vw: "parseFloat (trim (replace (trim ''1.5 miles'') ''miles'' [])) = Fin (3 / 2)"
    by code_simp
  have vt: "parseFloat (trim (replace (trim ''3 miles'') ''miles'' [])) = Fin 3"
    by code_simp
  have le: "js_le (Fin 0) (Fin (3 / 2))" "js_le (Fin 0) (Fin 3)"
    by code_simp+
  have 1: "(\<exists>doc. axios_get (respondWith [Inr stockedPage]) 0
            \<lparr>url = ''https://www.walmart.com/ip/'' @ ''012345'',
             headers = [(''User-Agent'', USER_AGENT), (''Accept'', ACCEPT)]\<rparr> = (Inr doc, 1)
         \<and> Fin (9 / 2) = parseFloat (replace (trim (text_of doc ''.price-main'')) ''$'' []))"
    using parsed_numbers_sign [where net = ?net and t = 0 and sid = "''1001''" and code = "''012345''"
        and i = ?iw and t' = 1 and p = "Fin (9 / 2)"] w pw
    by blast
  have 2: "length (fst (findWalmartStores widgetNetwork 2 ''90210'')) = length (store_list_items ?wp)
      \<and> fst (findWalmartStores widgetNetwork 2 ''90210'') ! 0
          = storeOfItem Walmart (store_list_items ?wp ! 0)
      \<and> loc_distance (fst (findWalmartStores widgetNetwork 2 ''90210'') ! 0)
          = Some (parseFloat (trim (replace (trim (distance_text (store_list_items ?wp ! 0))) ''miles'' [])))"
    using parsed_numbers_sign [where net = widgetNetwork and t = 2 and z = "''90210''"
        and page = ?wp and k = 0] aw kw
    by blast
  have 3: "length (fst (findTargetStores widgetNetwork 3 ''90210'')) = length (store_list_items ?tp)
      \<and> fst (findTargetStores widgetNetwork 3 ''90210'') ! 1
          = storeOfItem Target (store_list_items ?tp ! 1)
      \<and> loc_distance (fst (findTargetStores widgetNetwork 3 ''90210'') ! 1)
          = Some (parseFloat (trim (replace (trim (distance_text (store_list_items ?tp ! 1))) ''miles'' [])))"
    using parsed_numbers_sign [where net = widgetNetwork and t = 3 and z = "''90210''"
        and page' = ?tp and k' = 1] at kt
    by blast
  from 2 [THEN conjunct1] have 4: "length (fst (findWalmartStores widgetNetwork 2 ''90210'')) = 1"
    by (simp add: lw)
  from 2 [THEN conjunct2, THEN conjunct1] have 5: "fst (findWalmartStores widgetNetwork 2 ''90210'') ! 0
       = storeOfItem Walmart \<lparr>data_store_id = Some ''W1'', store_name_text = ''Walmart Supercenter'',
                  store_address_text = ''100 Main St'', distance_text = ''1.5 miles''\<rparr>"
    by (simp add: ew)
  from 2 [THEN conjunct2, THEN conjunct2] have 6: "loc_distance (fst (findWalmartStores widgetNetwork 2 ''90210'') ! 0) = Some (Fin (3 / 2))"
    by (simp add: ew vw)
  from 3 [THEN conjunct1] have 7: "length (fst (findTargetStores widgetNetwork 3 ''90210'')) = 2"
    by (simp add: lt)
  from 3 [THEN conjunct2, THEN conjunct1] have 8: "fst (findTargetStores widgetNetwork 3 ''90210'') ! 1
       = storeOfItem Target \<lparr>data_store_id = Some ''T2'', store_name_text = ''Target North'',
                  store_address_text = ''300 Elm Rd'', distance_text = ''3 miles''\<rparr>"
    by (simp add: et)
  from 3 [THEN conjunct2, THEN conjunct2] have 9: "loc_distance (fst (findTargetStores widgetNetwork 3 ''90210'') ! 1) = Some (Fin 3)"
    by (simp add: et vt)
  show ?thesis
    by (intro conjI w g 1 aw at 4 5 6 7 8 9 le)
qed

text \<open>
  C7 (amended).  A store finder returns the empty list when its request fails, and one store
  per store node of the page otherwise (none for a page without store nodes).  An inventory
  lookup returns null exactly when its request fails; on a page where every node is missing
  it returns a StoreInventory with the defaults.  The results are plain lists and options:
  no failure leaves an adapter in any other form.
\<close>

theorem adapters_absorb_failures:
  "(fst (axios_get net t \<lparr>url = ''https://www.walmart.com/store/finder?location='' @ z,
                         headers = [(''User-Agent'', USER_AGENT)]\<rparr>) = Inl e
      \<longrightarrow> fst (findWalmartStores net t z) = [])
   \<and> (fst (axios_get net t \<lparr>url = ''https://www.target.com/store-locator/find-stores?address='' @ z,
                           headers = [(''User-Agent'', USER_AGENT)]\<rparr>) = Inl e
      \<longrightarrow> fst (findTargetStores net t z) = [])
   \<and> (fst (axios_get net t \<lparr>url = ''https://www.walmart.com/store/finder?location='' @ z,
                           headers = [(''User-Agent'', USER_AGENT)]\<rparr>) = Inr doc
      \<longrightarrow> length (fst (findWalmartStores net t z)) = length (store_list_items doc))
   \<and> (fst (axios_get net t \<lparr>url = ''https://www.target.com/store-locator/find-stores?address='' @ z,
                           headers = [(''User-Agent'', USER_AGENT)]\<rparr>) = Inr doc
      \<longrightarrow> length (fst (findTargetStores net t z)) = length (store_list_items doc))
   \<and> (fst (getWalmartInventory net t sid code) = None \<longleftrightarrow>
        (\<exists>err. fst (axios_get net t \<lparr>url = ''https://www.walmart.com/ip/'' @ code,
                   headers = [(''User-Agent'', USER_AGENT), (''Accept'', ACCEPT)]\<rparr>) = Inl err))
   \<and> (fst (getTargetInventory net t sid code) = None \<longleftrightarrow>
        (\<exists>err. fst (axios_get net t \<lparr>url = ''https://www.target.com/p/a/'' @ code,
                   headers = [(''User-Agent'', USER_AGENT), (''Accept'', ACCEPT)]\<rparr>) = Inl err))
   \<and> (axios_get net t \<lparr>url = ''https://www.walmart.com/ip/'' @ code,
                   headers = [(''User-Agent'', USER_AGENT), (''Accept'', ACCEPT)]\<rparr> = (Inr page, t')
        \<and> (\<forall>selector. text_of page selector = [])
      \<longrightarrow> getWalmartInventory net t sid code
            = (Some \<lparr>storeId = sid, chain = Walmart, inStock = False, quantity = None,
                      aisle = ''Ask store associate'', price = None, lastUpdated = t'\<rparr>, t'))
   \<and> (axios_get net t \<lparr>url = ''https://www.target.com/p/a/'' @ code,
                   headers = [(''User-Agent'', USER_AGENT), (''Accept'', ACCEPT)]\<rparr> = (Inr page, t')
        \<and> (\<forall>selector. text_of page selector = [])
      \<longrightarrow> getTargetInventory net t sid code
            = (Some \<lparr>storeId = sid, chain = Target, inStock = False, quantity = None,
                      aisle = ''Ask store associate'', price = None, lastUpdated = t'\<rparr>, t'))"
proof (intro conjI impI)
  have blank: "toLowerCase [] = []" "trim [] = []" "\<not> includesText [] ''in stock''"
    "orElse [] ''Ask store associate'' = ''Ask store associate''"
    "orUndefined (parseFloat []) = None"
    by (simp_all add: toLowerCase_def trim_def orElse_def orUndefined_def parseFloat_def
        trimStart_def)
  show "getWalmartInventory net t sid code
            = (Some \<lparr>storeId = sid, chain = Walmart, inStock = False, quantity = None,
                      aisle = ''Ask store associate'', price = None, lastUpdated = t'\<rparr>, t')"
    if "axios_get net t \<lparr>url = ''https://www.walmart.com/ip/'' @ code,
                   headers = [(''User-Agent'', USER_AGENT), (''Accept'', ACCEPT)]\<rparr> = (Inr page, t')
        \<and> (\<forall>selector. text_of page selector = [])"
    using that by (simp add: getWalmartInventory_def Let_def blank)
  show "getTargetInventory net t sid code
            = (Some \<lparr>storeId = sid, chain = Target, inStock = False, quantity = None,
                      aisle = ''Ask store associate'', price = None, lastUpdated = t'\<rparr>, t')"
    if "axios_get net t \<lparr>url = ''https://www.target.com/p/a/'' @ code,
                   headers = [(''User-Agent'', USER_AGENT), (''Accept'', ACCEPT)]\<rparr> = (Inr page, t')
        \<and> (\<forall>selector. text_of page selector = [])"
    using that by (simp add: getTargetInventory_def Let_def blank)
  show "fst (findWalmartStores net t z) = []"
    if "fst (axios_get net t \<lparr>url = ''https://www.walmart.com/store/finder?location='' @ z,
                         headers = [(''User-Agent'', USER_AGENT)]\<rparr>) = Inl e"
    using that by (auto simp: findWalmartStores_def split: prod.splits sum.splits)
  show "fst (findTargetStores net t z) = []"
    if "fst (axios_get net t \<lparr>url = ''https://www.target.com/store-locator/find-stores?address='' @ z,
                           headers = [(''User-Agent'', USER_AGENT)]\<rparr>) = Inl e"
    using that by (auto simp: findTargetStores_def split: prod.splits sum.splits)
  show "length (fst (findWalmartStores net t z)) = length (store_list_items doc)"
    if "fst (axios_get net t \<lparr>url = ''https://www.walmart.com/store/finder?location='' @ z,
                           headers = [(''User-Agent'', USER_AGENT)]\<rparr>) = Inr doc"
    using that by (auto simp: findWalmartStores_def split: prod.splits sum.splits)
  show "length (fst (findTargetStores net t z)) = length (store_list_items doc)"
    if "fst (axios_get net t \<lparr>url = ''https://www.target.com/store-locator/find-stores?address='' @ z,
                           headers = [(''User-Agent'', USER_AGENT)]\<rparr>) = Inr doc"
    using that by (auto simp: findTargetStores_def split: prod.splits sum.splits)
  show "fst (getWalmartInventory net t sid code) = None \<longleftrightarrow>
        (\<exists>err. fst (axios_get net t \<lparr>url = ''https://www.walmart.com/ip/'' @ code,
                   headers = [(''User-Agent'', USER_AGENT), (''Accept'', ACCEPT)]\<rparr>) = Inl err)"
    by (auto simp: getWalmartInventory_def Let_def split: prod.splits sum.splits)
  show "fst (getTargetInventory net t sid code) = None \<longleftrightarrow>
        (\<exists>err. fst (axios_get net t \<lparr>url = ''https://www.target.com/p/a/'' @ code,
                   headers = [(''User-Agent'', USER_AGENT), (''Accept'', ACCEPT)]\<rparr>) = Inl err)"
    by (auto simp: getTargetInventory_def Let_def split: prod.splits sum.splits)
qed

text \<open>
  A page retrieved with success on which every node is missing: the inventory lookup does
  not return null, it returns a StoreInventory with the defaults.
\<close>

theorem missing_nodes_counterexample:
  "getWalmartInventory (respondWith [Inr (pageOf [])]) 0 ''1001'' ''012345''
     = (Some \<lparr>storeId = ''1001'', chain = Walmart, inStock = False, quantity = None,
               aisle = ''Ask store associate'', price = None, lastUpdated = 1\<rparr>, 1)
   \<and> getTargetInventory (respondWith [Inr (pageOf [])]) 0 ''2002'' ''012345''
     = (Some \<lparr>storeId = ''2002'', chain = Target, inStock = False, quantity = None,
               aisle = ''Ask store associate'', price = None, lastUpdated = 1\<rparr>, 1)"
  by code_simp

theorem adapters_absorb_failures_witness:
  "fst (axios_get (respondWith [Inl (HttpStatus 404)]) 0
          \<lparr>url = ''https://www.walmart.com/store/finder?location='' @ ''90210'',
           headers = [(''User-Agent'', USER_AGENT)]\<rparr>) = Inl (HttpStatus 404)
   \<and> fst (axios_get (respondWith [Inl (HttpStatus 404)]) 0
          \<lparr>url = ''https://www.target.com/store-locator/find-stores?address='' @ ''90210'',
           headers = [(''User-Agent'', USER_AGENT)]\<rparr>) = Inl (HttpStatus 404)
   \<and> fst (findWalmartStores (respondWith [Inl (HttpStatus 404)]) 0 ''90210'') = []
   \<and> fst (findTargetStores (respondWith [Inl (HttpStatus 404)]) 0 ''90210'') = []
   \<and> fst (getWalmartInventory (respondWith [Inl (HttpStatus 404)]) 0 ''1001'' ''012345'') = None
   \<and> fst (getTargetInventory (respondWith [Inl (HttpStatus 404)]) 0 ''1001'' ''012345'') = None
   \<and> fst (axios_get (respondWith [Inr (storeListPage [])]) 0
          \<lparr>url = ''https://www.walmart.com/store/finder?location='' @ ''90210'',
           headers = [(''User-Agent'', USER_AGENT)]\<rparr>) = Inr (storeListPage [])
   \<and> length (fst (findWalmartStores (respondWith [Inr (storeListPage [])]) 0 ''90210'')) = 0
   \<and> (\<forall>selector. text_of (pageOf []) selector = [])
   \<and> getTargetInventory (respondWith [Inr (pageOf [])]) 0 ''2002'' ''012345''
        = (Some \<lparr>storeId = ''2002'', chain = Target, inStock = False, quantity = None,
                  aisle = ''Ask store associate'', price = None, lastUpdated = 1\<rparr>, 1)"
proof -
  let ?net = "respondWith [Inl (HttpStatus 404)]"
  have a: "fst (axios_get ?net 0 req) = Inl (HttpStatus 404)" for req
    by (simp add: axios_get_def axios_retry.simps [of ?net req 0 0] respondWith_def
        retryCondition_def isNetworkOrIdempotentRequestError_def)
  have b: "fst (axios_get (respondWith [Inr (storeListPage [])]) 0 req) = Inr (storeListPage [])" for req
    by (simp add: axios_get_def axios_retry.simps [of _ req 0 0] respondWith_def)
  have "length (fst (findWalmartStores (respondWith [Inr (storeListPage [])]) 0 ''90210''))
        = length (store_list_items (storeListPage []))"
    using adapters_absorb_failures [of "respondWith [Inr (storeListPage [])]" 0 "''90210''" _
        "storeListPage []"] b
    by blast
  then have c: "length (fst (findWalmartStores (respondWith [Inr (storeListPage [])]) 0 ''90210'')) = 0"
    by (simp add: storeListPage_def)
  have e: "\<forall>selector. text_of (pageOf []) selector = []"
    by (simp add: pageOf_def)
  have f: "axios_get (respondWith [Inr (pageOf [])]) 0 req = (Inr (pageOf []), 1)" for req
    by (simp add: axios_get_def axios_retry.simps [of _ req 0 0] respondWith_def)
  have g: "getTargetInventory (respondWith [Inr (pageOf [])]) 0 ''2002'' ''012345''
        = (Some \<lparr>storeId = ''2002'', chain = Target, inStock = False, quantity = None,
                  aisle = ''Ask store associate'', price = None, lastUpdated = 1\<rparr>, 1)"
    using adapters_absorb_failures [of "respondWith [Inr (pageOf [])]" 0 _ _ _ "''2002''" "''012345''"
        "pageOf []" 1] e f
    by blast
  from adapters_absorb_failures [of ?net 0 "''90210''" "HttpStatus 404" _ "''1001''" "''012345''"] a b c e g
  show ?thesis by blast
qed

end
